theory Spec2Isabelle
  imports Main
begin

section \<open>Python values used by the portal scrapers\<close>

subsection \<open>Exceptions and results\<close>

text \<open>
  A Python exception is a value: its class name and its message (\<open>str(e)\<close>).  A call
  that may raise returns \<open>exn + 'a\<close>, with \<open>Inl\<close> for the raised exception.
\<close>

datatype exn = PyError string string

fun exn_message :: "exn \<Rightarrow> string" where
  "exn_message (PyError cls msg) = msg"

subsection \<open>Strings\<close>

text \<open>
  A character is a code point below 256, so a text is a Python \<open>str\<close> of such code
  points; texts with other code points are outside the model.  On these code points
  \<open>is_space\<close> is \<open>str.isspace\<close> (what \<open>str.strip\<close> removes and \<open>\s\<close> matches: the
  ASCII whitespace, U+0085 and U+00A0), \<open>is_digit\<close> is the class \<open>\d\<close> (the only
  decimal digits below 256 are 0 to 9) and \<open>lower_char\<close> is \<open>str.lower\<close>.
  \<open>is_upper\<close>, \<open>is_lower\<close> and \<open>upper_char\<close> are the ASCII letters only: they serve
  \<open>title\<close>, which the scrapers apply to their own ASCII course keys.
\<close>

definition is_space :: "char \<Rightarrow> bool" where
  "is_space c = (let n = (of_char c :: nat) in
                   (9 \<le> n \<and> n \<le> 13) \<or> (28 \<le> n \<and> n \<le> 32) \<or> n = 133 \<or> n = 160)"

definition is_digit :: "char \<Rightarrow> bool" where
  "is_digit c = (let n = (of_char c :: nat) in 48 \<le> n \<and> n \<le> 57)"

definition is_upper :: "char \<Rightarrow> bool" where
  "is_upper c = (let n = (of_char c :: nat) in 65 \<le> n \<and> n \<le> 90)"

definition is_lower :: "char \<Rightarrow> bool" where
  "is_lower c = (let n = (of_char c :: nat) in 97 \<le> n \<and> n \<le> 122)"

definition lower_char :: "char \<Rightarrow> char" where
  "lower_char c = (let n = (of_char c :: nat) in
                     if (65 \<le> n \<and> n \<le> 90) \<or> (192 \<le> n \<and> n \<le> 222 \<and> n \<noteq> 215)
                     then char_of (n + 32) else c)"

definition upper_char :: "char \<Rightarrow> char" where
  "upper_char c = (if is_lower c then char_of ((of_char c :: nat) - 32) else c)"

definition lower :: "string \<Rightarrow> string" where
  "lower s = map lower_char s"

text \<open>\<open>s.strip()\<close>: leading and trailing whitespace removed.\<close>

definition strip :: "string \<Rightarrow> string" where
  "strip s = rev (dropWhile is_space (rev (dropWhile is_space s)))"

text \<open>\<open>s.replace(a, b)\<close> for single characters \<open>a\<close> and \<open>b\<close>.\<close>

definition replace_char :: "char \<Rightarrow> char \<Rightarrow> string \<Rightarrow> string" where
  "replace_char a b s = map (\<lambda>c. if c = a then b else c) s"

text \<open>
  \<open>s.title()\<close>: a cased character that follows an uncased one (or starts the string)
  is upper-cased, a cased character that follows a cased one is lower-cased.
\<close>

fun title_from :: "bool \<Rightarrow> string \<Rightarrow> string" where
  "title_from prev_cased [] = []"
| "title_from prev_cased (c # cs) =
     (if is_lower c then (if prev_cased then c else upper_char c) # title_from True cs
      else if is_upper c then (if prev_cased then lower_char c else c) # title_from True cs
      else c # title_from False cs)"

definition title :: "string \<Rightarrow> string" where
  "title s = title_from False s"

text \<open>\<open>k in s\<close> on strings: \<open>k\<close> occurs in \<open>s\<close> as a contiguous substring.\<close>

fun starts_with :: "string \<Rightarrow> string \<Rightarrow> bool" where
  "starts_with [] s = True"
| "starts_with (k # ks) [] = False"
| "starts_with (k # ks) (c # cs) = (k = c \<and> starts_with ks cs)"

fun is_substring :: "string \<Rightarrow> string \<Rightarrow> bool" where
  "is_substring k [] = (k = [])"
| "is_substring k (c # cs) = (starts_with k (c # cs) \<or> is_substring k cs)"

text \<open>\<open>int(s)\<close> on a string of decimal digits, surrounding whitespace ignored.\<close>

definition digit_val :: "char \<Rightarrow> nat" where
  "digit_val c = (of_char c :: nat) - 48"

definition int_of_digits :: "string \<Rightarrow> nat" where
  "int_of_digits s = foldl (\<lambda>acc c. 10 * acc + digit_val c) 0 (strip s)"

text \<open>\<open>str(n)\<close> for a natural number, as the f-string \<open>f"Assignment {i+1}"\<close> prints it.\<close>

fun digits_of :: "nat \<Rightarrow> nat \<Rightarrow> string" where
  "digits_of 0 n = []"
| "digits_of (Suc fuel) n =
     (if n < 10 then [char_of (48 + n)]
      else digits_of fuel (n div 10) @ [char_of (48 + n mod 10)])"

definition str_nat :: "nat \<Rightarrow> string" where
  "str_nat n = digits_of (Suc n) n"

subsection \<open>Naive datetimes\<close>

text \<open>
  A naive \<open>datetime\<close> is its position on the proleptic Gregorian time line: the day
  ordinal of \<open>date.toordinal()\<close> (day 1 is 0001-01-01) and the microseconds since
  midnight.  Python compares naive datetimes in exactly this order.
\<close>

record datetime =
  ordinal :: int
  usec :: int

definition dt_ge :: "datetime \<Rightarrow> datetime \<Rightarrow> bool" where
  "dt_ge a b = (ordinal b < ordinal a \<or> (ordinal a = ordinal b \<and> usec b \<le> usec a))"

definition is_leap :: "int \<Rightarrow> bool" where
  "is_leap y = (y mod 4 = 0 \<and> (y mod 100 \<noteq> 0 \<or> y mod 400 = 0))"

definition days_before_year :: "int \<Rightarrow> int" where
  "days_before_year year = (let y = year - 1 in y * 365 + y div 4 - y div 100 + y div 400)"

definition DAYS_IN_MONTH :: "int list" where
  "DAYS_IN_MONTH = [31, 28, 31, 30, 31, 30, 31, 31, 30, 31, 30, 31]"

definition days_in_month :: "int \<Rightarrow> nat \<Rightarrow> int" where
  "days_in_month year month =
     (if month = 2 \<and> is_leap year then 29 else DAYS_IN_MONTH ! (month - 1))"

definition days_before_month :: "int \<Rightarrow> nat \<Rightarrow> int" where
  "days_before_month year month =
     sum_list (take (month - 1) DAYS_IN_MONTH) + (if 2 < month \<and> is_leap year then 1 else 0)"

definition ymd2ord :: "int \<Rightarrow> nat \<Rightarrow> int \<Rightarrow> int" where
  "ymd2ord year month day = days_before_year year + days_before_month year month + day"

definition MAXORDINAL :: int where
  "MAXORDINAL = 3652059"

text \<open>
  The constructor \<open>datetime(year, month, day)\<close>: midnight of that calendar date, or
  \<open>None\<close> where Python raises \<open>ValueError\<close> (year outside 1..9999, month outside
  1..12, day outside the month).
\<close>

definition datetime_ymd :: "int \<Rightarrow> nat \<Rightarrow> int \<Rightarrow> datetime option" where
  "datetime_ymd year month day =
     (if 1 \<le> year \<and> year \<le> 9999 \<and> 1 \<le> month \<and> month \<le> 12
         \<and> 1 \<le> day \<and> day \<le> days_in_month year month
      then Some \<lparr>ordinal = ymd2ord year month day, usec = 0\<rparr>
      else None)"

text \<open>\<open>str(n)\<close> for an integer.\<close>

definition str_int :: "int \<Rightarrow> string" where
  "str_int n = (if n < 0 then CHR ''-'' # str_nat (nat (- n)) else str_nat (nat n))"

text \<open>
  \<open>now - timedelta(days=since_days)\<close>.  \<open>timedelta\<close> raises \<open>OverflowError\<close> beyond
  999999999 days, and the subtraction raises it when the result leaves the supported
  range of dates.
\<close>

definition cutoff_date :: "datetime \<Rightarrow> int \<Rightarrow> exn + datetime" where
  "cutoff_date now since_days =
     (if since_days < - 999999999 \<or> 999999999 < since_days
      then Inl (PyError ''OverflowError''
                  (''days='' @ str_int since_days @ ''; must have magnitude <= 999999999''))
      else let d = ordinal now - since_days in
           if 1 \<le> d \<and> d \<le> MAXORDINAL then Inr (now\<lparr>ordinal := d\<rparr>)
           else Inl (PyError ''OverflowError'' ''date value out of range''))"

subsection \<open>\<open>datetime.strptime\<close>\<close>

text \<open>
  \<open>strptime\<close> turns the format into a regular expression (compiled with
  \<open>IGNORECASE\<close>), takes the first match found by backtracking from the start of the
  text, and rejects the text when that match does not reach its end.  \<open>rmatch\<close> lists the
  matches of an expression in the order the backtracking matcher finds them, each with
  its named groups, the text consumed and the text left.
\<close>

datatype regex =
    REps
  | RChar char
  | RDigit
  | RRange char char
  | RSpaces
  | RSeq regex regex
  | RAlt regex regex
  | RGroup string regex

fun rmatch :: "regex \<Rightarrow> string \<Rightarrow> ((string \<times> string) list \<times> string \<times> string) list" where
  "rmatch REps s = [([], [], s)]"
| "rmatch (RChar c) s =
     (case s of [] \<Rightarrow> []
      | x # xs \<Rightarrow> if lower_char x = lower_char c then [([], [x], xs)] else [])"
| "rmatch RDigit s =
     (case s of [] \<Rightarrow> [] | x # xs \<Rightarrow> if is_digit x then [([], [x], xs)] else [])"
| "rmatch (RRange a b) s =
     (case s of [] \<Rightarrow> []
      | x # xs \<Rightarrow> if (of_char a :: nat) \<le> of_char x \<and> (of_char x :: nat) \<le> of_char b
                then [([], [x], xs)] else [])"
| "rmatch RSpaces s =
     map (\<lambda>k. ([], take k s, drop k s)) (rev [1 ..< Suc (length (takeWhile is_space s))])"
| "rmatch (RSeq r1 r2) s =
     concat (map (\<lambda>(g1, m1, rest1).
                    map (\<lambda>(g2, m2, rest2). (g1 @ g2, m1 @ m2, rest2)) (rmatch r2 rest1))
                 (rmatch r1 s))"
| "rmatch (RAlt r1 r2) s = rmatch r1 s @ rmatch r2 s"
| "rmatch (RGroup name r) s = map (\<lambda>(g, m, rest). (g @ [(name, m)], m, rest)) (rmatch r s)"

definition rseq :: "regex list \<Rightarrow> regex" where
  "rseq rs = foldr RSeq rs REps"

fun ralt :: "regex list \<Rightarrow> regex" where
  "ralt [] = REps"
| "ralt [r] = r"
| "ralt (r # rs) = RAlt r (ralt rs)"

definition rword :: "string \<Rightarrow> regex" where
  "rword s = rseq (map RChar s)"

text \<open>Abbreviated month names of the C locale, \<open>calendar.month_abbr[1:]\<close> lower-cased.\<close>

definition a_month :: "string list" where
  "a_month = [''jan'', ''feb'', ''mar'', ''apr'', ''may'', ''jun'',
              ''jul'', ''aug'', ''sep'', ''oct'', ''nov'', ''dec'']"

text \<open>
  The expressions of the directives that the scrapers' formats use; any other
  directive is outside this model (\<open>None\<close>).
\<close>

definition directive :: "char \<Rightarrow> regex option" where
  "directive c =
     (if c = CHR ''d'' then
        Some (RGroup ''d'' (ralt [RSeq (RChar CHR ''3'') (RRange CHR ''0'' CHR ''1''),
                                  RSeq (RRange CHR ''1'' CHR ''2'') RDigit,
                                  RSeq (RChar CHR ''0'') (RRange CHR ''1'' CHR ''9''),
                                  RRange CHR ''1'' CHR ''9'',
                                  RSeq (RChar CHR '' '') (RRange CHR ''1'' CHR ''9'')]))
      else if c = CHR ''m'' then
        Some (RGroup ''m'' (ralt [RSeq (RChar CHR ''1'') (RRange CHR ''0'' CHR ''2''),
                                  RSeq (RChar CHR ''0'') (RRange CHR ''1'' CHR ''9''),
                                  RRange CHR ''1'' CHR ''9'']))
      else if c = CHR ''y'' then Some (RGroup ''y'' (rseq [RDigit, RDigit]))
      else if c = CHR ''Y'' then Some (RGroup ''Y'' (rseq [RDigit, RDigit, RDigit, RDigit]))
      else if c = CHR ''b'' then Some (RGroup ''b'' (ralt (map rword a_month)))
      else None)"

text \<open>
  \<open>TimeRE.pattern\<close>: a run of whitespace in the format matches one or more whitespace
  characters, \<open>%x\<close> is replaced by the expression of directive \<open>x\<close>, any other
  character stands for itself.
\<close>

fun option_cons :: "'a \<Rightarrow> 'a list option \<Rightarrow> 'a list option" where
  "option_cons x None = None"
| "option_cons x (Some xs) = Some (x # xs)"

fun pattern_from :: "bool \<Rightarrow> string \<Rightarrow> regex list option" where
  "pattern_from in_space [] = Some []"
| "pattern_from in_space [c] =
     (if c = CHR ''%'' then None
      else if is_space c then Some (if in_space then [] else [RSpaces])
      else Some [RChar c])"
| "pattern_from in_space (c # d # cs) =
     (if c = CHR ''%'' then
        (case directive d of None \<Rightarrow> None
         | Some r \<Rightarrow> option_cons r (pattern_from False cs))
      else if is_space c then
        (if in_space then pattern_from True (d # cs)
         else option_cons RSpaces (pattern_from True (d # cs)))
      else option_cons (RChar c) (pattern_from False (d # cs)))"

definition pattern :: "string \<Rightarrow> regex list option" where
  "pattern format = pattern_from False format"

definition index_of :: "'a \<Rightarrow> 'a list \<Rightarrow> nat" where
  "index_of x xs = length (takeWhile (\<lambda>y. y \<noteq> x) xs)"

text \<open>
  The fields read from the named groups: \<open>%y\<close> below 69 is in the century 2000, the
  others in 1900; without a year the year is 1900, without a month or day it is 1.
\<close>

definition found_year :: "(string \<times> string) list \<Rightarrow> int" where
  "found_year g =
     (case map_of g ''Y'' of Some s \<Rightarrow> int (int_of_digits s)
      | None \<Rightarrow> (case map_of g ''y'' of
                   Some s \<Rightarrow> (let y = int (int_of_digits s) in if y \<le> 68 then y + 2000 else y + 1900)
                 | None \<Rightarrow> 1900))"

definition found_month :: "(string \<times> string) list \<Rightarrow> nat" where
  "found_month g =
     (case map_of g ''b'' of Some s \<Rightarrow> Suc (index_of (lower s) a_month)
      | None \<Rightarrow> (case map_of g ''m'' of Some s \<Rightarrow> int_of_digits s | None \<Rightarrow> 1))"

definition found_day :: "(string \<times> string) list \<Rightarrow> int" where
  "found_day g = (case map_of g ''d'' of Some s \<Rightarrow> int (int_of_digits s) | None \<Rightarrow> 1)"

text \<open>\<open>datetime.strptime(data_string, format)\<close>; \<open>None\<close> where it raises.\<close>

definition strptime :: "string \<Rightarrow> string \<Rightarrow> datetime option" where
  "strptime data_string format =
     (case pattern format of None \<Rightarrow> None
      | Some rs \<Rightarrow>
          (case rmatch (rseq rs) data_string of [] \<Rightarrow> None
           | (g, m, rest) # _ \<Rightarrow>
               if rest \<noteq> [] then None
               else datetime_ymd (found_year g) (found_month g) (found_day g)))"

text \<open>
  The loop over the candidate formats that both extractors run on the stripped date
  text: the first format that parses wins, every exception moves on to the next.
\<close>

definition DATE_FORMATS :: "string list" where
  "DATE_FORMATS = [''%m/%d/%Y'', ''%Y-%m-%d'', ''%b %d, %Y'', ''%m-%d-%Y'', ''%m/%d/%y'']"

fun try_formats :: "string list \<Rightarrow> string \<Rightarrow> datetime option" where
  "try_formats [] text = None"
| "try_formats (fmt # fmts) text =
     (case strptime text fmt of Some d \<Rightarrow> Some d | None \<Rightarrow> try_formats fmts text)"

definition parse_date_text :: "string \<Rightarrow> datetime option" where
  "parse_date_text text = try_formats DATE_FORMATS (strip text)"


text \<open>
  \<open>re.findall(r'\d+\.?\d*', text)[0]\<close>: the leftmost run of digits, with a decimal
  point and further digits when they follow; \<open>None\<close> when the text has no digit.
\<close>

fun first_number :: "string \<Rightarrow> string option" where
  "first_number [] = None"
| "first_number (c # cs) =
     (if is_digit c then
        Some (let ds = takeWhile is_digit (c # cs) in
              case dropWhile is_digit (c # cs) of
                [] \<Rightarrow> ds
              | d # rest \<Rightarrow> if d = CHR ''.'' then ds @ [d] @ takeWhile is_digit rest else ds)
      else first_number cs)"

section \<open>The browser seen from the scrapers\<close>

text \<open>
  Every call that changes the browser or reads the clock is an effect.  The scrapers are
  functions of the history of effects performed so far and return the extended history;
  what the browser answers is a function of that history, so nothing is assumed about
  the portal.
\<close>

datatype effect =
    StartPlaywright
  | LaunchBrowser
  | NewContext "string option"
  | NewPage
  | Goto string
  | WaitLoad nat
  | Screenshot string
  | Fill string "string option"
  | Click string
  | Press string
  | SaveState string
  | ClosePage
  | CloseContext
  | ReadClock

text \<open>
  A handle on part of a page, with what each awaited call on it answers:
  \<open>h.inner_text()\<close>, \<open>h.count()\<close>, \<open>h.locator(sel).count()\<close>,
  \<open>h.locator(sel).first\<close>, \<open>h.locator(sel).all()\<close>,
  \<open>h.locator(sel).inner_text()\<close> and the handle \<open>h.locator(sel).nth(i)\<close>
  (\<open>Inl\<close>: every call on it raises).
\<close>

datatype elem = Elem
  (inner_text: "exn + string")
  (count_self: "exn + nat")
  (loc_count: "string \<Rightarrow> exn + nat")
  (loc_first: "string \<Rightarrow> exn + elem")
  (loc_all: "string \<Rightarrow> exn + elem list")
  (loc_text: "string \<Rightarrow> exn + string")
  (loc_nth: "string \<Rightarrow> nat \<Rightarrow> exn + elem")

record world =
  w_raises :: "effect list \<Rightarrow> effect \<Rightarrow> exn option"
  w_page :: "effect list \<Rightarrow> elem"
  w_now :: "effect list \<Rightarrow> datetime"
  w_exists :: "effect list \<Rightarrow> string \<Rightarrow> bool"
  w_abspath :: "string \<Rightarrow> string"

type_synonym 'a run = "effect list \<Rightarrow> (exn + 'a) \<times> effect list"

definition ret :: "'a \<Rightarrow> 'a run" where
  "ret x h = (Inr x, h)"

definition lift :: "exn + 'a \<Rightarrow> 'a run" where
  "lift r h = (r, h)"

definition bind :: "'a run \<Rightarrow> ('a \<Rightarrow> 'b run) \<Rightarrow> 'b run" where
  "bind m f h = (case m h of (Inl e, h') \<Rightarrow> (Inl e, h') | (Inr x, h') \<Rightarrow> f x h')"

text \<open>\<open>try: m except Exception as e: handler(e)\<close>\<close>

definition try_except :: "'a run \<Rightarrow> (exn \<Rightarrow> 'a run) \<Rightarrow> 'a run" where
  "try_except m handler h = (case m h of (Inl e, h') \<Rightarrow> handler e h' | (Inr x, h') \<Rightarrow> (Inr x, h'))"

text \<open>
  \<open>try: m finally: fin\<close>: \<open>fin\<close> runs on every exit of \<open>m\<close>; an exception raised
  by \<open>fin\<close> replaces the outcome of \<open>m\<close>.
\<close>

definition try_finally :: "'a run \<Rightarrow> unit run \<Rightarrow> 'a run" where
  "try_finally m fin h =
     (case m h of (r, h') \<Rightarrow>
        (case fin h' of (Inl e, h'') \<Rightarrow> (Inl e, h'') | (Inr u, h'') \<Rightarrow> (r, h'')))"

definition perform :: "world \<Rightarrow> effect \<Rightarrow> unit run" where
  "perform w e h = ((case w_raises w h e of Some x \<Rightarrow> Inl x | None \<Rightarrow> Inr ()), h @ [e])"

text \<open>\<open>datetime.now()\<close>\<close>

definition clock_now :: "world \<Rightarrow> datetime run" where
  "clock_now w h = (Inr (w_now w h), h @ [ReadClock])"

definition current_page :: "world \<Rightarrow> elem run" where
  "current_page w h = (Inr (w_page w h), h)"

definition path_exists :: "world \<Rightarrow> string \<Rightarrow> bool run" where
  "path_exists w path h = (Inr (w_exists w h path), h)"

section \<open>Configuration and data model\<close>

record config =
  PORTAL_BASE_URL :: string
  FULL_LOGIN_URL :: string
  USERNAME :: "string option"
  PASSWORD :: "string option"
  STATE_PATH :: string

text \<open>
  \<open>Assignment\<close> and \<open>GradeSample\<close>.  \<open>grade_percent\<close> holds the decimal literal that
  the source passes to \<open>float\<close>.
\<close>

record assignment =
  as_title :: string
  as_course :: string
  as_due_date :: "datetime option"
  as_status :: string
  as_points_possible :: "string option"
  as_points_earned :: "string option"
  as_link :: "string option"

record grade_sample =
  gs_course :: string
  gs_date :: datetime
  gs_grade_percent :: "string option"

definition Assignment :: "string \<Rightarrow> string \<Rightarrow> datetime option \<Rightarrow> string \<Rightarrow> assignment" where
  "Assignment t c d s =
     \<lparr>as_title = t, as_course = c, as_due_date = d, as_status = s,
      as_points_possible = None, as_points_earned = None, as_link = None\<rparr>"

definition URL_BASE :: string where
  "URL_BASE = ''https://academy20co.infinitecampus.org/campus/nav-wrapper/parent/portal/parent/''"

definition class_url :: "string \<Rightarrow> string" where
  "class_url section_id =
     URL_BASE @ ''classroom/grades/student-grades?showAllTerms=false&selectedTermID=4928&classroomSectionID=''
       @ section_id @ ''&appName=academy20''"

definition grades_overview :: string where
  "grades_overview = URL_BASE @ ''grades?appName=academy20''"

definition assignments_all :: string where
  "assignments_all = URL_BASE @ ''assignment-list?appName=academy20''"

definition assignments_missing :: string where
  "assignments_missing = URL_BASE @ ''assignment-list?missingFilter=true&appName=academy20''"

definition classes :: "(string \<times> string) list" where
  "classes =
     [(''individuals_and_societies'', class_url ''2203804''),
      (''lang_lit'', class_url ''2203759''),
      (''science'', class_url ''2203787''),
      (''spanish_2'', class_url ''2203715''),
      (''pre_algebra'', class_url ''2203700'')]"

definition INFINITE_CAMPUS_URLS_keys :: "string list" where
  "INFINITE_CAMPUS_URLS_keys = [''grades_overview'', ''assignments_all'', ''assignments_missing'', ''classes'']"


section \<open>\<open>deployment/aws/configured_server.py\<close>\<close>

subsection \<open>Page helpers\<close>

text \<open>\<open>wait_for_page_load\<close>: a timeout of the wait is logged and swallowed.\<close>

definition wait_for_page_load :: "world \<Rightarrow> nat \<Rightarrow> unit run" where
  "wait_for_page_load w timeout = try_except (perform w (WaitLoad timeout)) (\<lambda>e. ret ())"

text \<open>
  The selector loops of the scrapers: the first selector whose \<open>count()\<close> is positive.
  These loops have no handler of their own, so a raising \<open>count()\<close> leaves the loop.
\<close>

fun find_selector :: "elem \<Rightarrow> string list \<Rightarrow> exn + string option" where
  "find_selector page [] = Inr None"
| "find_selector page (selector # rest) =
     (case loc_count page selector of
        Inl e \<Rightarrow> Inl e
      | Inr n \<Rightarrow> if 0 < n then Inr (Some selector) else find_selector page rest)"

text \<open>The shared date parsing block: text that is absent or empty is not parsed.\<close>

definition parse_optional_date :: "string option \<Rightarrow> datetime option" where
  "parse_optional_date date_text =
     (case date_text of None \<Rightarrow> None
      | Some t \<Rightarrow> if t = [] then None else parse_date_text t)"

subsection \<open>\<open>scrape_missing_assignments\<close>\<close>

definition TABLE_SELECTORS :: "string list" where
  "TABLE_SELECTORS = [''table'', ''.assignment-table'', ''.data-table'', ''.table'',
                      ''[role='table']'', ''.ic-table'']"

definition CARD_SELECTORS :: "string list" where
  "CARD_SELECTORS = [''.assignment-card'', ''.assignment-item'', ''.card'',
                     ''[data-testid*='assignment']'']"

text \<open>The recency test of both assignment layouts.\<close>

definition keep_assignment :: "datetime option \<Rightarrow> datetime \<Rightarrow> bool" where
  "keep_assignment due_date cutoff =
     (case due_date of None \<Rightarrow> True | Some d \<Rightarrow> dt_ge d cutoff)"

text \<open>
  One iteration of the table loop; \<open>None\<close> when the row is skipped, by \<open>continue\<close> or
  by the handler of the row.
\<close>

definition assignment_of_row :: "datetime \<Rightarrow> nat \<Rightarrow> elem \<Rightarrow> assignment option" where
  "assignment_of_row cutoff i row =
     (if i = 0 then None
      else case loc_all row ''td'' of
        Inl e \<Rightarrow> None
      | Inr cells \<Rightarrow>
          if length cells < 3 then None
          else case (if 0 < length cells then inner_text (cells ! 0)
                     else Inr (''Assignment '' @ str_nat i)) of
            Inl e \<Rightarrow> None
          | Inr title_text \<Rightarrow>
              (case (if 1 < length cells then inner_text (cells ! 1) else Inr ''Unknown'') of
                 Inl e \<Rightarrow> None
               | Inr course \<Rightarrow>
                   (case (if 2 < length cells then map_sum id Some (inner_text (cells ! 2))
                          else Inr None) of
                      Inl e \<Rightarrow> None
                    | Inr due_date_text \<Rightarrow>
                        (case (if 3 < length cells then inner_text (cells ! 3)
                               else Inr ''missing'') of
                           Inl e \<Rightarrow> None
                         | Inr status \<Rightarrow>
                             (let due_date = parse_optional_date due_date_text in
                              if keep_assignment due_date cutoff
                              then Some (Assignment (strip title_text) (strip course) due_date ''missing'')
                              else None)))))"

fun assignment_rows :: "datetime \<Rightarrow> nat \<Rightarrow> elem list \<Rightarrow> assignment list" where
  "assignment_rows cutoff i [] = []"
| "assignment_rows cutoff i (row # rows) =
     (case assignment_of_row cutoff i row of None \<Rightarrow> [] | Some a \<Rightarrow> [a])
       @ assignment_rows cutoff (Suc i) rows"

text \<open>
  The text of a sub-element of a card: \<open>await e.inner_text() if await e.count() > 0
  else default\<close>.
\<close>

definition text_or :: "elem \<Rightarrow> 'a \<Rightarrow> (string \<Rightarrow> 'a) \<Rightarrow> exn + 'a" where
  "text_or e fallback f =
     (case count_self e of
        Inl x \<Rightarrow> Inl x
      | Inr n \<Rightarrow> if 0 < n then map_sum id f (inner_text e) else Inr fallback)"

definition assignment_of_card :: "datetime \<Rightarrow> nat \<Rightarrow> elem \<Rightarrow> assignment option" where
  "assignment_of_card cutoff i card_elem =
     (case loc_first card_elem ''h3, .title, .assignment-title, [data-testid*='title']'' of
        Inl e \<Rightarrow> None
      | Inr title_elem \<Rightarrow>
     (case loc_first card_elem ''.course, .subject, .class-name'' of
        Inl e \<Rightarrow> None
      | Inr course_elem \<Rightarrow>
     (case loc_first card_elem ''.status, .assignment-status, .missing'' of
        Inl e \<Rightarrow> None
      | Inr status_elem \<Rightarrow>
     (case loc_first card_elem ''.due-date, .due, .date'' of
        Inl e \<Rightarrow> None
      | Inr due_date_elem \<Rightarrow>
     (case text_or title_elem (''Assignment '' @ str_nat (i + 1)) id of
        Inl e \<Rightarrow> None
      | Inr title_text \<Rightarrow>
     (case text_or course_elem ''Unknown'' id of
        Inl e \<Rightarrow> None
      | Inr course \<Rightarrow>
     (case text_or status_elem ''missing'' id of
        Inl e \<Rightarrow> None
      | Inr status \<Rightarrow>
     (case text_or due_date_elem None Some of
        Inl e \<Rightarrow> None
      | Inr due_date_text \<Rightarrow>
          (let due_date = parse_optional_date due_date_text in
           if keep_assignment due_date cutoff
           then Some (Assignment (strip title_text) (strip course) due_date ''missing'')
           else None)))))))))"

fun assignment_cards :: "datetime \<Rightarrow> nat \<Rightarrow> elem list \<Rightarrow> assignment list" where
  "assignment_cards cutoff i [] = []"
| "assignment_cards cutoff i (card_elem # cards) =
     (case assignment_of_card cutoff i card_elem of None \<Rightarrow> [] | Some a \<Rightarrow> [a])
       @ assignment_cards cutoff (Suc i) cards"

text \<open>What the \<open>try\<close> block does once the cutoff is known.\<close>

definition extract_assignments :: "elem \<Rightarrow> datetime \<Rightarrow> exn + assignment list" where
  "extract_assignments page cutoff =
     (case find_selector page TABLE_SELECTORS of
        Inl e \<Rightarrow> Inl e
      | Inr None \<Rightarrow>
          (case find_selector page CARD_SELECTORS of
             Inl e \<Rightarrow> Inl e
           | Inr None \<Rightarrow> Inr []
           | Inr (Some selector) \<Rightarrow>
               (case loc_all page selector of
                  Inl e \<Rightarrow> Inl e
                | Inr cards \<Rightarrow> Inr (assignment_cards cutoff 0 cards)))
      | Inr (Some table_found) \<Rightarrow>
          (case loc_first page table_found of
             Inl e \<Rightarrow> Inl e
           | Inr table \<Rightarrow>
               (case loc_all table ''tr'' of
                  Inl e \<Rightarrow> Inl e
                | Inr rows \<Rightarrow> Inr (assignment_rows cutoff 0 rows))))"

definition scrape_missing_assignments_try :: "world \<Rightarrow> int \<Rightarrow> assignment list run" where
  "scrape_missing_assignments_try w since_days =
     bind (perform w (Goto assignments_missing)) (\<lambda>_.
     bind (wait_for_page_load w 10000) (\<lambda>_.
     bind (perform w (Screenshot ''assignments_page_debug.png'')) (\<lambda>_.
     bind (clock_now w) (\<lambda>now.
     bind (lift (cutoff_date now since_days)) (\<lambda>cutoff.
     bind (current_page w) (\<lambda>page.
     lift (extract_assignments page cutoff)))))))"

definition scrape_missing_assignments :: "world \<Rightarrow> int \<Rightarrow> assignment list run" where
  "scrape_missing_assignments w since_days =
     bind (perform w NewPage) (\<lambda>_.
     try_finally
       (try_except (scrape_missing_assignments_try w since_days) (\<lambda>e. ret []))
       (perform w ClosePage))"

subsection \<open>\<open>extract_grades_from_page\<close>\<close>

definition GRADE_TABLE_SELECTORS :: "string list" where
  "GRADE_TABLE_SELECTORS = [''table'', ''.grade-table'', ''.data-table'', ''.table'',
                            ''[role='table']'', ''.ic-table'']"

definition parse_grade :: "string option \<Rightarrow> string option" where
  "parse_grade grade_text =
     (case grade_text of None \<Rightarrow> None
      | Some t \<Rightarrow> if t = [] then None else first_number t)"

text \<open>
  The date of a grade row starts as \<open>datetime.now()\<close> and is replaced only when a
  format parses the text.
\<close>

definition grade_date_of :: "datetime \<Rightarrow> string option \<Rightarrow> datetime" where
  "grade_date_of now date_text =
     (case date_text of None \<Rightarrow> now
      | Some t \<Rightarrow> if t = [] then now
                  else (case parse_date_text t of None \<Rightarrow> now | Some d \<Rightarrow> d))"

definition course_label :: "string \<Rightarrow> string" where
  "course_label course_name = title (replace_char CHR ''_'' CHR '' '' course_name)"

text \<open>
  One iteration of the grade loop: the sample appended, if any, and the history, which
  grows by the clock reading once the cells of the row have been read.
\<close>

definition grade_of_row ::
  "world \<Rightarrow> string \<Rightarrow> datetime \<Rightarrow> nat \<Rightarrow> elem \<Rightarrow> effect list \<Rightarrow> grade_sample option \<times> effect list" where
  "grade_of_row w course_name cutoff i row h =
     (if i = 0 then (None, h)
      else case loc_all row ''td'' of
        Inl e \<Rightarrow> (None, h)
      | Inr cells \<Rightarrow>
          if length cells < 2 then (None, h)
          else case (if 0 < length cells then map_sum id Some (inner_text (cells ! 0))
                     else Inr None) of
            Inl e \<Rightarrow> (None, h)
          | Inr grade_text \<Rightarrow>
              (case (if 1 < length cells then map_sum id Some (inner_text (cells ! 1))
                     else Inr None) of
                 Inl e \<Rightarrow> (None, h)
               | Inr date_text \<Rightarrow>
                   (case (if 2 < length cells then map_sum id Some (inner_text (cells ! 2))
                          else Inr None) of
                      Inl e \<Rightarrow> (None, h)
                    | Inr description_text \<Rightarrow>
                        (let grade_percent = parse_grade grade_text;
                             grade_date = grade_date_of (w_now w h) date_text
                         in if dt_ge grade_date cutoff
                            then (Some \<lparr>gs_course = course_label course_name,
                                        gs_date = grade_date,
                                        gs_grade_percent = grade_percent\<rparr>, h @ [ReadClock])
                            else (None, h @ [ReadClock])))))"

fun grade_rows ::
  "world \<Rightarrow> string \<Rightarrow> datetime \<Rightarrow> nat \<Rightarrow> elem list \<Rightarrow> effect list \<Rightarrow> grade_sample list \<times> effect list" where
  "grade_rows w course_name cutoff i [] h = ([], h)"
| "grade_rows w course_name cutoff i (row # rows) h =
     (case grade_of_row w course_name cutoff i row h of
        (g, h') \<Rightarrow>
          (case grade_rows w course_name cutoff (Suc i) rows h' of
             (gs, h'') \<Rightarrow> ((case g of None \<Rightarrow> [] | Some x \<Rightarrow> [x]) @ gs, h'')))"

text \<open>
  The whole body is inside \<open>try\<close>; its handler logs, and the function returns the
  list built so far, which is empty when the table cannot be reached.
\<close>

definition extract_grades_from_page ::
  "world \<Rightarrow> elem \<Rightarrow> string \<Rightarrow> datetime \<Rightarrow> effect list \<Rightarrow> grade_sample list \<times> effect list" where
  "extract_grades_from_page w page course_name cutoff h =
     (case find_selector page GRADE_TABLE_SELECTORS of
        Inl e \<Rightarrow> ([], h)
      | Inr None \<Rightarrow> ([], h)
      | Inr (Some table_found) \<Rightarrow>
          (case loc_first page table_found of
             Inl e \<Rightarrow> ([], h)
           | Inr table \<Rightarrow>
               (case loc_all table ''tr'' of
                  Inl e \<Rightarrow> ([], h)
                | Inr rows \<Rightarrow> grade_rows w course_name cutoff 0 rows h)))"

subsection \<open>\<open>scrape_course_grades\<close>\<close>

definition course_mapping :: "(string \<times> string) list" where
  "course_mapping =
     [(''individuals'', ''individuals_and_societies''),
      (''societies'', ''individuals_and_societies''),
      (''lang'', ''lang_lit''),
      (''lit'', ''lang_lit''),
      (''language'', ''lang_lit''),
      (''literature'', ''lang_lit''),
      (''science'', ''science''),
      (''spanish'', ''spanish_2''),
      (''math'', ''pre_algebra''),
      (''algebra'', ''pre_algebra''),
      (''pre-algebra'', ''pre_algebra'')]"

text \<open>
  The loop \<open>for key, value in course_mapping.items(): if key.lower() in
  course_filter.lower(): course_key = value; break\<close>, over the items in the order the
  dictionary lists them.
\<close>

fun find_course_key :: "(string \<times> string) list \<Rightarrow> string \<Rightarrow> string option" where
  "find_course_key [] course_filter = None"
| "find_course_key ((key, val) # items) course_filter =
     (if is_substring (lower key) (lower course_filter) then Some val
      else find_course_key items course_filter)"

text \<open>
  The page chosen for a filter that is present and not empty: \<open>course_key\<close> must be
  found, not empty, and a key of the \<open>classes\<close> table.
\<close>

definition course_page :: "string \<Rightarrow> (string \<times> string) option" where
  "course_page course_filter =
     (case find_course_key course_mapping course_filter of
        None \<Rightarrow> None
      | Some course_key \<Rightarrow>
          if course_key = [] then None
          else (case map_of classes course_key of
                  None \<Rightarrow> None
                | Some url \<Rightarrow> Some (course_key, url)))"

definition grades_of_page :: "world \<Rightarrow> string \<Rightarrow> string \<Rightarrow> string \<Rightarrow> datetime \<Rightarrow> grade_sample list run" where
  "grades_of_page w url shot course_name cutoff =
     bind (perform w (Goto url)) (\<lambda>_.
     bind (wait_for_page_load w 10000) (\<lambda>_.
     bind (perform w (Screenshot shot)) (\<lambda>_.
     bind (current_page w) (\<lambda>page h.
       case extract_grades_from_page w page course_name cutoff h of
         (grades, h') \<Rightarrow> (Inr grades, h')))))"

definition scrape_course_grades_try :: "world \<Rightarrow> string option \<Rightarrow> int \<Rightarrow> grade_sample list run" where
  "scrape_course_grades_try w course_filter since_days =
     bind (clock_now w) (\<lambda>now.
     bind (lift (cutoff_date now since_days)) (\<lambda>cutoff.
       if course_filter \<noteq> None \<and> course_filter \<noteq> Some [] then
         (case course_page (the course_filter) of
            Some (course_key, url) \<Rightarrow>
              grades_of_page w url (''grades_'' @ course_key @ ''_debug.png'') course_key cutoff
          | None \<Rightarrow> ret [])
       else grades_of_page w grades_overview ''grades_overview_debug.png'' ''overview'' cutoff))"

definition scrape_course_grades :: "world \<Rightarrow> string option \<Rightarrow> int \<Rightarrow> grade_sample list run" where
  "scrape_course_grades w course_filter since_days =
     bind (perform w NewPage) (\<lambda>_.
     try_finally
       (try_except (scrape_course_grades_try w course_filter since_days) (\<lambda>e. ret []))
       (perform w ClosePage))"

subsection \<open>Session acquisition and login\<close>

text \<open>
  \<open>get_context\<close>: the browser is started and a context is created from the state file
  when \<open>os.path.exists(STATE_PATH)\<close>, from nothing otherwise.  No call is guarded, so
  whatever the browser raises leaves the function.
\<close>

definition get_context :: "config \<Rightarrow> world \<Rightarrow> unit run" where
  "get_context cfg w =
     bind (perform w StartPlaywright) (\<lambda>_.
     bind (perform w LaunchBrowser) (\<lambda>_.
     bind (path_exists w (STATE_PATH cfg)) (\<lambda>found.
     perform w (NewContext (if found then Some (STATE_PATH cfg) else None)))))"

text \<open>
  The probes for markers of a logged-in page: each \<open>count()\<close> has its own handler, so
  a raising probe moves on to the next marker.
\<close>

fun any_present :: "elem \<Rightarrow> string list \<Rightarrow> bool" where
  "any_present page [] = False"
| "any_present page (indicator # rest) =
     (case loc_count page indicator of
        Inl e \<Rightarrow> any_present page rest
      | Inr n \<Rightarrow> if 0 < n then True else any_present page rest)"

definition logged_in_indicators :: "string list" where
  "logged_in_indicators = [''text=Logout'', ''text=Sign Out'', ''text=Welcome'',
                           ''text=Dashboard'', ''text=Grades'']"

definition ensure_login_try :: "config \<Rightarrow> world \<Rightarrow> unit run" where
  "ensure_login_try cfg w =
     bind (perform w (Goto (PORTAL_BASE_URL cfg))) (\<lambda>_.
     bind (wait_for_page_load w 10000) (\<lambda>_.
     bind (current_page w) (\<lambda>page.
       if any_present page logged_in_indicators then perform w ClosePage
       else
         bind (perform w (Fill ''input[name='loginfmt']'' (USERNAME cfg))) (\<lambda>_.
         bind (perform w (Click ''input[type='submit']'')) (\<lambda>_.
         bind (wait_for_page_load w 5000) (\<lambda>_.
         bind (perform w (Fill ''input[name='passwd']'' (PASSWORD cfg))) (\<lambda>_.
         bind (perform w (Click ''input[type='submit']'')) (\<lambda>_.
         bind (wait_for_page_load w 15000) (\<lambda>_.
         perform w (SaveState (STATE_PATH cfg)))))))))))"

definition ensure_login :: "config \<Rightarrow> world \<Rightarrow> unit run" where
  "ensure_login cfg w =
     bind (perform w NewPage) (\<lambda>_.
     try_finally
       (try_except (ensure_login_try cfg w) (\<lambda>e. ret ()))
       (perform w ClosePage))"

subsection \<open>\<open>call_tool\<close>\<close>

text \<open>
  The arguments of a tool call, with the types that the tool schema declares:
  \<open>since_days\<close> is an integer or absent, \<open>course\<close> is a string or absent (\<open>None\<close>:
  the key is not in the dictionary).  A key bound to a JSON null or to a value of
  another type is outside the model.
\<close>

record arguments =
  arg_since_days :: "int option"
  arg_course :: "string option"

record tool_request =
  tool :: string
  args :: arguments

record health_info =
  hi_time :: datetime
  hi_base_url :: string
  hi_login_url :: string
  hi_state_file :: string
  hi_credentials_configured :: bool
  hi_configured_urls :: "string list option"

datatype tool_data =
    MissingData nat "assignment list"
  | GradesData "string option" "grade_sample list"
  | HealthData health_info

record tool_response =
  success :: bool
  data :: "tool_data option"
  error :: "string option"

text \<open>\<open>arguments.get("since_days", 14)\<close>, for an integer or an absent key.\<close>

definition since_days_of :: "arguments \<Rightarrow> int" where
  "since_days_of a = (case arg_since_days a of None \<Rightarrow> 14 | Some n \<Rightarrow> n)"

text \<open>\<open>bool(USERNAME and PASSWORD)\<close>\<close>

definition credentials_configured :: "config \<Rightarrow> bool" where
  "credentials_configured cfg =
     (USERNAME cfg \<noteq> None \<and> USERNAME cfg \<noteq> Some []
      \<and> PASSWORD cfg \<noteq> None \<and> PASSWORD cfg \<noteq> Some [])"

definition health_result :: "config \<Rightarrow> world \<Rightarrow> string list option \<Rightarrow> health_info run" where
  "health_result cfg w urls =
     bind (clock_now w) (\<lambda>now.
     ret \<lparr>hi_time = now, hi_base_url = PORTAL_BASE_URL cfg, hi_login_url = FULL_LOGIN_URL cfg,
          hi_state_file = w_abspath w (STATE_PATH cfg),
          hi_credentials_configured = credentials_configured cfg,
          hi_configured_urls = urls\<rparr>)"

definition call_tool_try :: "config \<Rightarrow> world \<Rightarrow> tool_request \<Rightarrow> tool_response run" where
  "call_tool_try cfg w request =
     (if tool request = ''check_missing_assignments'' then
        bind (get_context cfg w) (\<lambda>_.
        try_finally
          (bind (ensure_login cfg w) (\<lambda>_.
           bind (scrape_missing_assignments w (since_days_of (args request))) (\<lambda>items.
           ret \<lparr>success = True, data = Some (MissingData (length items) items), error = None\<rparr>)))
          (perform w CloseContext))
      else if tool request = ''get_course_grades'' then
        bind (get_context cfg w) (\<lambda>_.
        try_finally
          (bind (ensure_login cfg w) (\<lambda>_.
           bind (scrape_course_grades w (arg_course (args request)) (since_days_of (args request))) (\<lambda>items.
           ret \<lparr>success = True, data = Some (GradesData (arg_course (args request)) items), error = None\<rparr>)))
          (perform w CloseContext))
      else if tool request = ''health'' then
        bind (health_result cfg w (Some INFINITE_CAMPUS_URLS_keys)) (\<lambda>result.
        ret \<lparr>success = True, data = Some (HealthData result), error = None\<rparr>)
      else ret \<lparr>success = False, data = None, error = Some (''Unknown tool: '' @ tool request)\<rparr>)"

text \<open>The handler around the whole dispatch turns every exception into an envelope.\<close>

definition call_tool :: "config \<Rightarrow> world \<Rightarrow> tool_request \<Rightarrow> tool_response run" where
  "call_tool cfg w request =
     try_except (call_tool_try cfg w request)
       (\<lambda>e. ret \<lparr>success = False, data = None, error = Some (exn_message e)\<rparr>)"

section \<open>\<open>improved_server.py\<close>: the login flow with candidate selectors\<close>














section \<open>\<open>server.py\<close>: the stdio server\<close>

definition server_get_context :: "config \<Rightarrow> world \<Rightarrow> unit run" where
  "server_get_context cfg w =
     bind (perform w StartPlaywright) (\<lambda>_.
     bind (perform w LaunchBrowser) (\<lambda>_.
     bind (path_exists w (STATE_PATH cfg)) (\<lambda>found.
     perform w (NewContext (if found then Some (STATE_PATH cfg) else None)))))"

definition server_ensure_login :: "config \<Rightarrow> world \<Rightarrow> unit run" where
  "server_ensure_login cfg w =
     bind (perform w NewPage) (\<lambda>_.
     bind (perform w (Goto (PORTAL_BASE_URL cfg))) (\<lambda>_.
     bind (current_page w) (\<lambda>page.
     bind (lift (loc_count page ''text=Logout'')) (\<lambda>n.
       if 0 < n then perform w ClosePage
       else
         bind (perform w (Goto (FULL_LOGIN_URL cfg))) (\<lambda>_.
         bind (perform w (Fill ''input[name='username']'' (USERNAME cfg))) (\<lambda>_.
         bind (perform w (Fill ''input[name='password']'' (PASSWORD cfg))) (\<lambda>_.
         bind (perform w (Click ''button[type='submit']'')) (\<lambda>_.
         bind (perform w (WaitLoad 30000)) (\<lambda>_.
         bind (perform w (SaveState (STATE_PATH cfg))) (\<lambda>_.
         perform w ClosePage))))))))))"

text \<open>
  \<open>await e.locator(sel).inner_text() if await e.locator(sel).count() else default\<close>
\<close>

definition located_text_or :: "elem \<Rightarrow> string \<Rightarrow> 'a \<Rightarrow> (string \<Rightarrow> 'a) \<Rightarrow> exn + 'a" where
  "located_text_or e selector fallback f =
     (case loc_count e selector of
        Inl x \<Rightarrow> Inl x
      | Inr n \<Rightarrow> if n \<noteq> 0 then map_sum id f (loc_text e selector) else Inr fallback)"

definition server_assignment_of_row :: "datetime \<Rightarrow> elem \<Rightarrow> exn + assignment option" where
  "server_assignment_of_row cutoff row =
     (case located_text_or row ''.title'' ''Unknown'' id of
        Inl e \<Rightarrow> Inl e
      | Inr title_text \<Rightarrow>
     (case located_text_or row ''.course'' ''Unknown'' id of
        Inl e \<Rightarrow> Inl e
      | Inr course \<Rightarrow>
     (case located_text_or row ''.status'' ''unknown'' id of
        Inl e \<Rightarrow> Inl e
      | Inr status \<Rightarrow>
     (case located_text_or row ''.due'' None Some of
        Inl e \<Rightarrow> Inl e
      | Inr due_txt \<Rightarrow>
          (let due_date = (case due_txt of None \<Rightarrow> None
                           | Some t \<Rightarrow> if t = [] then None else strptime t ''%b %d, %Y'')
           in if starts_with ''missing'' (lower status) \<and> keep_assignment due_date cutoff
              then Inr (Some (Assignment title_text course due_date ''missing''))
              else Inr None)))))"

text \<open>\<open>for i in range(count): row = rows.nth(i) ...\<close>, with no handler in the loop.\<close>

fun server_assignment_loop :: "elem \<Rightarrow> datetime \<Rightarrow> nat \<Rightarrow> nat \<Rightarrow> exn + assignment list" where
  "server_assignment_loop page cutoff i 0 = Inr []"
| "server_assignment_loop page cutoff i (Suc n) =
     (case loc_nth page ''.assignment-row'' i of
        Inl e \<Rightarrow> Inl e
      | Inr row \<Rightarrow>
          (case server_assignment_of_row cutoff row of
             Inl e \<Rightarrow> Inl e
           | Inr a \<Rightarrow>
               (case server_assignment_loop page cutoff (Suc i) n of
                  Inl e \<Rightarrow> Inl e
                | Inr items \<Rightarrow> Inr ((case a of None \<Rightarrow> [] | Some x \<Rightarrow> [x]) @ items))))"

definition server_scrape_missing_assignments :: "config \<Rightarrow> world \<Rightarrow> int \<Rightarrow> assignment list run" where
  "server_scrape_missing_assignments cfg w since_days =
     bind (perform w NewPage) (\<lambda>_.
     bind (perform w (Goto (PORTAL_BASE_URL cfg @ ''/assignments''))) (\<lambda>_.
     bind (perform w (WaitLoad 30000)) (\<lambda>_.
     bind (current_page w) (\<lambda>page.
     bind (lift (loc_count page ''.assignment-row'')) (\<lambda>count.
     bind (clock_now w) (\<lambda>now.
     bind (lift (cutoff_date now since_days)) (\<lambda>cutoff.
     bind (lift (server_assignment_loop page cutoff 0 count)) (\<lambda>items.
     bind (perform w ClosePage) (\<lambda>_.
     ret items)))))))))"

text \<open>
  \<open>float(grade_txt.replace("%", "").strip())\<close> is kept as the text handed to \<open>float\<close>;
  which texts \<open>float\<close> accepts is a parameter.
\<close>

definition server_grade_of_row ::
  "(string \<Rightarrow> bool) \<Rightarrow> string \<Rightarrow> datetime \<Rightarrow> elem \<Rightarrow> exn + grade_sample option" where
  "server_grade_of_row float_ok course cutoff r =
     (case loc_text r ''td:nth-child(1)'' of
        Inl e \<Rightarrow> Inl e
      | Inr date_txt \<Rightarrow>
     (case loc_text r ''td:nth-child(2)'' of
        Inl e \<Rightarrow> Inl e
      | Inr grade_txt \<Rightarrow>
          (case strptime date_txt ''%b %d, %Y'' of
             None \<Rightarrow> Inr None
           | Some dt \<Rightarrow>
               if \<not> dt_ge dt cutoff then Inr None
               else (let txt = strip (filter (\<lambda>c. c \<noteq> CHR ''%'') grade_txt);
                         pct = (if float_ok txt then Some txt else None)
                     in Inr (Some \<lparr>gs_course = course, gs_date = dt, gs_grade_percent = pct\<rparr>)))))"

fun server_grade_loop ::
  "(string \<Rightarrow> bool) \<Rightarrow> elem \<Rightarrow> string \<Rightarrow> datetime \<Rightarrow> nat \<Rightarrow> nat \<Rightarrow> exn + grade_sample list" where
  "server_grade_loop float_ok card_elem course cutoff j 0 = Inr []"
| "server_grade_loop float_ok card_elem course cutoff j (Suc n) =
     (case loc_nth card_elem ''.grade-history tr'' j of
        Inl e \<Rightarrow> Inl e
      | Inr r \<Rightarrow>
          (case server_grade_of_row float_ok course cutoff r of
             Inl e \<Rightarrow> Inl e
           | Inr g \<Rightarrow>
               (case server_grade_loop float_ok card_elem course cutoff (Suc j) n of
                  Inl e \<Rightarrow> Inl e
                | Inr items \<Rightarrow> Inr ((case g of None \<Rightarrow> [] | Some x \<Rightarrow> [x]) @ items))))"

definition server_grades_of_card ::
  "(string \<Rightarrow> bool) \<Rightarrow> string option \<Rightarrow> datetime \<Rightarrow> elem \<Rightarrow> exn + grade_sample list" where
  "server_grades_of_card float_ok course_filter cutoff card_elem =
     (case located_text_or card_elem ''.course-name'' ''Unknown'' id of
        Inl e \<Rightarrow> Inl e
      | Inr course \<Rightarrow>
          if course_filter \<noteq> None \<and> course_filter \<noteq> Some []
             \<and> \<not> is_substring (lower (the course_filter)) (lower course)
          then Inr []
          else (case loc_count card_elem ''.grade-history tr'' of
                  Inl e \<Rightarrow> Inl e
                | Inr rcount \<Rightarrow> server_grade_loop float_ok card_elem course cutoff 0 rcount))"

fun server_card_loop ::
  "(string \<Rightarrow> bool) \<Rightarrow> elem \<Rightarrow> string option \<Rightarrow> datetime \<Rightarrow> nat \<Rightarrow> nat \<Rightarrow> exn + grade_sample list" where
  "server_card_loop float_ok page course_filter cutoff i 0 = Inr []"
| "server_card_loop float_ok page course_filter cutoff i (Suc n) =
     (case loc_nth page ''.course-card'' i of
        Inl e \<Rightarrow> Inl e
      | Inr card_elem \<Rightarrow>
          (case server_grades_of_card float_ok course_filter cutoff card_elem of
             Inl e \<Rightarrow> Inl e
           | Inr gs \<Rightarrow>
               (case server_card_loop float_ok page course_filter cutoff (Suc i) n of
                  Inl e \<Rightarrow> Inl e
                | Inr items \<Rightarrow> Inr (gs @ items))))"

definition server_scrape_course_grades ::
  "(string \<Rightarrow> bool) \<Rightarrow> config \<Rightarrow> world \<Rightarrow> string option \<Rightarrow> int \<Rightarrow> grade_sample list run" where
  "server_scrape_course_grades float_ok cfg w course_filter since_days =
     bind (perform w NewPage) (\<lambda>_.
     bind (perform w (Goto (PORTAL_BASE_URL cfg @ ''/grades''))) (\<lambda>_.
     bind (perform w (WaitLoad 30000)) (\<lambda>_.
     bind (current_page w) (\<lambda>page.
     bind (lift (loc_count page ''.course-card'')) (\<lambda>count.
     bind (clock_now w) (\<lambda>now.
     bind (lift (cutoff_date now since_days)) (\<lambda>cutoff.
     bind (lift (server_card_loop float_ok page course_filter cutoff 0 count)) (\<lambda>samples.
     bind (perform w ClosePage) (\<lambda>_.
     ret samples)))))))))"

text \<open>
  \<open>handle_call_tool\<close> returns the result that it serialises into the text content; it
  has no handler, and its last branch raises.
\<close>

definition handle_call_tool ::
  "(string \<Rightarrow> bool) \<Rightarrow> config \<Rightarrow> world \<Rightarrow> string \<Rightarrow> arguments \<Rightarrow> tool_data run" where
  "handle_call_tool float_ok cfg w name arguments =
     (if name = ''check_missing_assignments'' then
        bind (server_get_context cfg w) (\<lambda>_.
        try_finally
          (bind (server_ensure_login cfg w) (\<lambda>_.
           bind (server_scrape_missing_assignments cfg w (since_days_of arguments)) (\<lambda>items.
           ret (MissingData (length items) items))))
          (perform w CloseContext))
      else if name = ''get_course_grades'' then
        bind (server_get_context cfg w) (\<lambda>_.
        try_finally
          (bind (server_ensure_login cfg w) (\<lambda>_.
           bind (server_scrape_course_grades float_ok cfg w (arg_course arguments)
                   (since_days_of arguments)) (\<lambda>items.
           ret (GradesData (arg_course arguments) items))))
          (perform w CloseContext))
      else if name = ''health'' then
        bind (health_result cfg w None) (\<lambda>result. ret (HealthData result))
      else (\<lambda>h. (Inl (PyError ''ValueError'' (''Unknown tool: '' @ name)), h)))"

section \<open>Reading a history\<close>

text \<open>The URLs a history navigated to, in order.\<close>

fun goto_urls :: "effect list \<Rightarrow> string list" where
  "goto_urls [] = []"
| "goto_urls (Goto url # es) = url # goto_urls es"
| "goto_urls (e # es) = goto_urls es"

section \<open>Concrete portals\<close>

text \<open>
  Pages and browsers on which the theorems below are instantiated: a page made of one
  table, a page with no content, and a browser in which no call raises and the clock
  stands at midnight of 2024-03-15.
\<close>

definition no_match :: exn where
  "no_match = PyError ''TimeoutError'' ''no element matches the selector''"

definition text_cell :: "string \<Rightarrow> elem" where
  "text_cell s =
     Elem (Inr s) (Inr 1) (\<lambda>sel. Inr 0) (\<lambda>sel. Inl no_match) (\<lambda>sel. Inr [])
          (\<lambda>sel. Inl no_match) (\<lambda>sel i. Inl no_match)"

definition row_of :: "string list \<Rightarrow> elem" where
  "row_of texts =
     Elem (Inr (concat texts)) (Inr 1)
          (\<lambda>sel. Inr (if sel = ''td'' then length texts else 0))
          (\<lambda>sel. Inl no_match)
          (\<lambda>sel. Inr (if sel = ''td'' then map text_cell texts else []))
          (\<lambda>sel. Inl no_match) (\<lambda>sel i. Inl no_match)"

definition table_of :: "string list list \<Rightarrow> elem" where
  "table_of rows =
     Elem (Inr (concat (concat rows))) (Inr 1)
          (\<lambda>sel. Inr (if sel = ''tr'' then length rows else 0))
          (\<lambda>sel. Inl no_match)
          (\<lambda>sel. Inr (if sel = ''tr'' then map row_of rows else []))
          (\<lambda>sel. Inl no_match) (\<lambda>sel i. Inl no_match)"

definition table_page :: "string list list \<Rightarrow> elem" where
  "table_page rows =
     Elem (Inr (concat (concat rows))) (Inr 1)
          (\<lambda>sel. Inr (if sel = ''table'' then 1 else 0))
          (\<lambda>sel. if sel = ''table'' then Inr (table_of rows) else Inl no_match)
          (\<lambda>sel. Inr (if sel = ''table'' then [table_of rows] else []))
          (\<lambda>sel. Inl no_match) (\<lambda>sel i. Inl no_match)"

definition blank_page :: elem where
  "blank_page =
     Elem (Inr []) (Inr 1) (\<lambda>sel. Inr 0) (\<lambda>sel. Inl no_match) (\<lambda>sel. Inr [])
          (\<lambda>sel. Inl no_match) (\<lambda>sel i. Inl no_match)"

definition demo_now :: datetime where
  "demo_now = \<lparr>ordinal = 738960, usec = 0\<rparr>"

definition quiet_world :: "elem \<Rightarrow> world" where
  "quiet_world page =
     \<lparr>w_raises = (\<lambda>h e. None), w_page = (\<lambda>h. page), w_now = (\<lambda>h. demo_now),
      w_exists = (\<lambda>h p. False), w_abspath = (\<lambda>p. p)\<rparr>"

definition demo_config :: config where
  "demo_config =
     \<lparr>PORTAL_BASE_URL = ''https://portal.example.edu'',
      FULL_LOGIN_URL = ''https://portal.example.edu/login'',
      USERNAME = Some ''parent'', PASSWORD = Some ''secret'',
      STATE_PATH = ''./state.json''\<rparr>"

definition assignments_demo :: "string list list" where
  "assignments_demo =
     [[''Title'', ''Course'', ''Due'', ''Status''],
      [''Essay'', ''English'', ''03/17/2024'', ''Missing''],
      [''Lab report'', ''Science'', ''02/04/2024'', ''Missing''],
      [''Reading log'', ''English'', ''soon'']]"

definition grades_demo :: "string list list" where
  "grades_demo =
     [[''Grade'', ''Date'', ''Description''],
      [''85.5%'', ''not-a-date'', ''Quiz''],
      [''70'', ''01/01/2020''],
      [''92%'', ''03/14/2024'', ''Homework'']]"

definition essay :: assignment where
  "essay = Assignment ''Essay'' ''English'' (Some \<lparr>ordinal = 738962, usec = 0\<rparr>) ''missing''"

definition reading_log :: assignment where
  "reading_log = Assignment ''Reading log'' ''English'' None ''missing''"

definition quiz_sample :: "string \<Rightarrow> grade_sample" where
  "quiz_sample label = \<lparr>gs_course = label, gs_date = demo_now, gs_grade_percent = Some ''85.5''\<rparr>"

definition homework_sample :: "string \<Rightarrow> grade_sample" where
  "homework_sample label =
     \<lparr>gs_course = label, gs_date = \<lparr>ordinal = 738959, usec = 0\<rparr>, gs_grade_percent = Some ''92''\<rparr>"

definition no_arguments :: arguments where
  "no_arguments = \<lparr>arg_since_days = None, arg_course = None\<rparr>"

text \<open>
  A browser whose state file exists but cannot be loaded: creating a context from a
  state file raises, creating one from nothing does not.
\<close>

definition corrupt_state_world :: world where
  "corrupt_state_world =
     \<lparr>w_raises = (\<lambda>h e. case e of
                     NewContext (Some p) \<Rightarrow>
                       Some (PyError ''JSONDecodeError'' ''Expecting value: line 1 column 1 (char 0)'')
                   | _ \<Rightarrow> None),
      w_page = (\<lambda>h. blank_page), w_now = (\<lambda>h. demo_now),
      w_exists = (\<lambda>h p. True), w_abspath = (\<lambda>p. p)\<rparr>"

text \<open>
  The same table behind Playwright's own locators: \<open>Locator.first\<close> is a property
  whose value, a locator, cannot be awaited, so \<open>await page.locator(sel).first\<close> raises
  \<open>TypeError\<close> for every selector.
\<close>

definition first_not_awaitable :: exn where
  "first_not_awaitable = PyError ''TypeError'' ''object Locator can't be used in 'await' expression''"

definition live_row :: "string list \<Rightarrow> elem" where
  "live_row texts =
     Elem (Inr (concat texts)) (Inr 1)
          (\<lambda>sel. Inr (if sel = ''td'' then length texts else 0))
          (\<lambda>sel. Inl first_not_awaitable)
          (\<lambda>sel. Inr (if sel = ''td'' then map text_cell texts else []))
          (\<lambda>sel. Inl no_match) (\<lambda>sel i. Inl no_match)"

definition live_table :: "string list list \<Rightarrow> elem" where
  "live_table rows =
     Elem (Inr (concat (concat rows))) (Inr 1)
          (\<lambda>sel. Inr (if sel = ''tr'' then length rows else 0))
          (\<lambda>sel. Inl first_not_awaitable)
          (\<lambda>sel. Inr (if sel = ''tr'' then map live_row rows else []))
          (\<lambda>sel. Inl no_match) (\<lambda>sel i. Inl no_match)"

definition live_table_page :: "string list list \<Rightarrow> elem" where
  "live_table_page rows =
     Elem (Inr (concat (concat rows))) (Inr 1)
          (\<lambda>sel. Inr (if sel = ''table'' then 1 else 0))
          (\<lambda>sel. Inl first_not_awaitable)
          (\<lambda>sel. Inr (if sel = ''table'' then [live_table rows] else []))
          (\<lambda>sel. Inl no_match) (\<lambda>sel i. Inl no_match)"



section \<open>Facts about the scrapers\<close>

lemmas run_defs = bind_def ret_def lift_def try_except_def try_finally_def perform_def
  clock_now_def current_page_def path_exists_def wait_for_page_load_def

lemma assignment_of_row_keep:
  "assignment_of_row cutoff i row = Some a \<Longrightarrow> keep_assignment (as_due_date a) cutoff"
  unfolding assignment_of_row_def Let_def
  by (auto simp: Assignment_def split: if_splits sum.splits)

lemma assignment_rows_keep:
  "a \<in> set (assignment_rows cutoff i rows) \<Longrightarrow> keep_assignment (as_due_date a) cutoff"
  by (induction rows arbitrary: i) (auto split: option.splits dest: assignment_of_row_keep assignment_of_row_keep[OF sym])

lemma assignment_of_card_keep:
  "assignment_of_card cutoff i c = Some a \<Longrightarrow> keep_assignment (as_due_date a) cutoff"
  unfolding assignment_of_card_def Let_def
  by (auto simp: Assignment_def split: if_splits sum.splits)

lemma assignment_cards_keep:
  "a \<in> set (assignment_cards cutoff i cards) \<Longrightarrow> keep_assignment (as_due_date a) cutoff"
  by (induction cards arbitrary: i) (auto split: option.splits dest: assignment_of_card_keep assignment_of_card_keep[OF sym])

lemma extract_assignments_keep:
  "extract_assignments page cutoff = Inr items \<Longrightarrow> a \<in> set items
   \<Longrightarrow> keep_assignment (as_due_date a) cutoff"
  unfolding extract_assignments_def
  by (auto split: sum.splits option.splits dest: assignment_rows_keep assignment_cards_keep)

lemma scrape_missing_assignments_try_result:
  "scrape_missing_assignments_try w since_days h = (Inr items, h') \<Longrightarrow>
   \<exists>c. cutoff_date (w_now w (h @ [Goto assignments_missing, WaitLoad 10000,
                                  Screenshot ''assignments_page_debug.png''])) since_days = Inr c
       \<and> extract_assignments
            (w_page w (h @ [Goto assignments_missing, WaitLoad 10000,
                            Screenshot ''assignments_page_debug.png'', ReadClock])) c = Inr items"
  unfolding scrape_missing_assignments_try_def run_defs
  by (auto split: sum.splits option.splits prod.splits)

lemma scrape_missing_assignments_result:
  "scrape_missing_assignments w since_days h = (Inr items, h') \<Longrightarrow> a \<in> set items \<Longrightarrow>
   \<exists>c. cutoff_date (w_now w (h @ [NewPage, Goto assignments_missing, WaitLoad 10000,
                                  Screenshot ''assignments_page_debug.png''])) since_days = Inr c
       \<and> keep_assignment (as_due_date a) c"
proof -
  assume r: "scrape_missing_assignments w since_days h = (Inr items, h')" and a: "a \<in> set items"
  obtain r1 h1 where t: "scrape_missing_assignments_try w since_days (h @ [NewPage]) = (r1, h1)"
    by (cases "scrape_missing_assignments_try w since_days (h @ [NewPage])")
  from r t a have "r1 = Inr items"
    unfolding scrape_missing_assignments_def run_defs
    by (auto split: sum.splits option.splits prod.splits)
  with t scrape_missing_assignments_try_result[of w since_days "h @ [NewPage]" items h1]
  obtain c where "cutoff_date (w_now w ((h @ [NewPage]) @ [Goto assignments_missing, WaitLoad 10000,
                                  Screenshot ''assignments_page_debug.png''])) since_days = Inr c"
    and "extract_assignments
            (w_page w ((h @ [NewPage]) @ [Goto assignments_missing, WaitLoad 10000,
                            Screenshot ''assignments_page_debug.png'', ReadClock])) c = Inr items"
    by blast
  with a show ?thesis by (auto dest: extract_assignments_keep)
qed

lemma grade_of_row_keep:
  "grade_of_row w cn cutoff i row h = (Some g, h') \<Longrightarrow>
     dt_ge (gs_date g) cutoff \<and> gs_course g = course_label cn"
  unfolding grade_of_row_def Let_def
  by (auto split: if_splits sum.splits)

lemma grade_rows_keep:
  "g \<in> set (fst (grade_rows w cn cutoff i rows h)) \<Longrightarrow>
     dt_ge (gs_date g) cutoff \<and> gs_course g = course_label cn"
proof (induction rows arbitrary: i h)
  case Nil
  then show ?case by simp
next
  case (Cons row rows)
  obtain g1 h1 where r: "grade_of_row w cn cutoff i row h = (g1, h1)"
    by (cases "grade_of_row w cn cutoff i row h")
  obtain gs h2 where rs: "grade_rows w cn cutoff (Suc i) rows h1 = (gs, h2)"
    by (cases "grade_rows w cn cutoff (Suc i) rows h1")
  from Cons.prems r rs have "g1 = Some g \<or> g \<in> set gs"
    by (auto split: option.splits)
  then show ?case
  proof
    assume "g1 = Some g"
    with r show ?thesis by (auto dest: grade_of_row_keep)
  next
    assume "g \<in> set gs"
    with rs Cons.IH[of "Suc i" h1] show ?thesis by simp
  qed
qed

lemma extract_grades_keep:
  "g \<in> set (fst (extract_grades_from_page w page cn cutoff h)) \<Longrightarrow>
     dt_ge (gs_date g) cutoff \<and> gs_course g = course_label cn"
  unfolding extract_grades_from_page_def
  by (auto split: sum.splits option.splits dest: grade_rows_keep)

lemma grades_of_page_result:
  "grades_of_page w url shot cn cutoff h = (Inr items, h') \<Longrightarrow>
     items = fst (extract_grades_from_page w
                    (w_page w (h @ [Goto url, WaitLoad 10000, Screenshot shot])) cn cutoff
                    (h @ [Goto url, WaitLoad 10000, Screenshot shot]))"
  unfolding grades_of_page_def run_defs
  by (auto split: sum.splits option.splits prod.splits)

lemma grades_of_page_keep:
  "grades_of_page w url shot cn cutoff h = (Inr items, h') \<Longrightarrow> g \<in> set items \<Longrightarrow>
     dt_ge (gs_date g) cutoff \<and> gs_course g = course_label cn"
  using grades_of_page_result[of w url shot cn cutoff h items h'] extract_grades_keep
  by blast

lemma scrape_course_grades_try_result:
  "scrape_course_grades_try w course_filter since_days h = (Inr items, h') \<Longrightarrow> g \<in> set items \<Longrightarrow>
   \<exists>c. cutoff_date (w_now w h) since_days = Inr c \<and> dt_ge (gs_date g) c"
  unfolding scrape_course_grades_try_def bind_def clock_now_def lift_def ret_def
  by (auto split: sum.splits option.splits prod.splits if_splits dest: grades_of_page_keep)

lemma scrape_course_grades_result:
  "scrape_course_grades w course_filter since_days h = (Inr items, h') \<Longrightarrow> g \<in> set items \<Longrightarrow>
   \<exists>c. cutoff_date (w_now w (h @ [NewPage])) since_days = Inr c \<and> dt_ge (gs_date g) c"
proof -
  assume r: "scrape_course_grades w course_filter since_days h = (Inr items, h')" and g: "g \<in> set items"
  obtain r1 h1 where t: "scrape_course_grades_try w course_filter since_days (h @ [NewPage]) = (r1, h1)"
    by (cases "scrape_course_grades_try w course_filter since_days (h @ [NewPage])")
  from r t g have "r1 = Inr items"
    unfolding scrape_course_grades_def run_defs
    by (auto split: sum.splits option.splits prod.splits)
  with t g show ?thesis by (auto dest: scrape_course_grades_try_result)
qed

lemma call_tool_missing_items:
  "call_tool cfg w request h = (Inr resp, hf) \<Longrightarrow> data resp = Some (MissingData n items) \<Longrightarrow>
   \<exists>h1 h2. scrape_missing_assignments w (since_days_of (args request)) h1 = (Inr items, h2)"
  unfolding call_tool_def call_tool_try_def health_result_def
    bind_def ret_def try_except_def try_finally_def
  by (auto split: sum.splits option.splits prod.splits if_splits; blast)

lemma call_tool_grades_items:
  "call_tool cfg w request h = (Inr resp, hf) \<Longrightarrow> data resp = Some (GradesData f items) \<Longrightarrow>
   \<exists>h1 h2. scrape_course_grades w (arg_course (args request)) (since_days_of (args request)) h1
             = (Inr items, h2)"
  unfolding call_tool_def call_tool_try_def health_result_def
    bind_def ret_def try_except_def try_finally_def
  by (auto split: sum.splits option.splits prod.splits if_splits; blast)

lemma grade_of_row_history:
  "snd (grade_of_row w cn cutoff i row h) = h \<or> snd (grade_of_row w cn cutoff i row h) = h @ [ReadClock]"
  unfolding grade_of_row_def Let_def
  by (auto split: sum.splits)

lemma starts_with_iff: "starts_with k s \<longleftrightarrow> (\<exists>q. s = k @ q)"
  by (induction k s rule: starts_with.induct) auto

lemma is_substring_iff: "is_substring k s \<longleftrightarrow> (\<exists>p q. s = p @ k @ q)"
proof (induction s)
  case Nil
  then show ?case by auto
next
  case (Cons c cs)
  show ?case
  proof
    assume "is_substring k (c # cs)"
    then consider "starts_with k (c # cs)" | "is_substring k cs" by auto
    then show "\<exists>p q. c # cs = p @ k @ q"
    proof cases
      case 1
      then obtain q where "c # cs = k @ q" by (auto simp: starts_with_iff)
      then have "c # cs = [] @ k @ q" by simp
      then show ?thesis by blast
    next
      case 2
      with Cons.IH obtain p q where "cs = p @ k @ q" by auto
      then have "c # cs = (c # p) @ k @ q" by simp
      then show ?thesis by blast
    qed
  next
    assume "\<exists>p q. c # cs = p @ k @ q"
    then obtain p q where pq: "c # cs = p @ k @ q" by blast
    show "is_substring k (c # cs)"
    proof (cases p)
      case Nil
      with pq have "starts_with k (c # cs)" by (auto simp: starts_with_iff)
      then show ?thesis by simp
    next
      case (Cons a p')
      with pq have "cs = p' @ k @ q" by simp
      with Cons.IH have "is_substring k cs" by blast
      then show ?thesis by simp
    qed
  qed
qed

lemma find_course_key_Some:
  "find_course_key items f = Some v \<longleftrightarrow>
     (\<exists>i. i < length items \<and> snd (items ! i) = v
          \<and> is_substring (lower (fst (items ! i))) (lower f)
          \<and> (\<forall>j. j < i \<longrightarrow> \<not> is_substring (lower (fst (items ! j))) (lower f)))"
proof (induction items)
  case Nil
  then show ?case by simp
next
  case (Cons kv items)
  obtain k v' where kv: "kv = (k, v')" by (cases kv)
  show ?case
  proof (cases "is_substring (lower k) (lower f)")
    case True
    have "(\<exists>i. i < length (kv # items) \<and> snd ((kv # items) ! i) = v
          \<and> is_substring (lower (fst ((kv # items) ! i))) (lower f)
          \<and> (\<forall>j. j < i \<longrightarrow> \<not> is_substring (lower (fst ((kv # items) ! j))) (lower f)))
        \<longleftrightarrow> v' = v"
    proof
      assume "\<exists>i. i < length (kv # items) \<and> snd ((kv # items) ! i) = v
          \<and> is_substring (lower (fst ((kv # items) ! i))) (lower f)
          \<and> (\<forall>j. j < i \<longrightarrow> \<not> is_substring (lower (fst ((kv # items) ! j))) (lower f))"
      then obtain i where i: "snd ((kv # items) ! i) = v"
        "\<forall>j. j < i \<longrightarrow> \<not> is_substring (lower (fst ((kv # items) ! j))) (lower f)" by blast
      have "i = 0"
      proof (rule ccontr)
        assume "i \<noteq> 0"
        then have "0 < i" by simp
        with i(2) have "\<not> is_substring (lower (fst ((kv # items) ! 0))) (lower f)" by blast
        with True kv show False by simp
      qed
      with i(1) kv show "v' = v" by simp
    next
      assume "v' = v"
      with True kv have "0 < length (kv # items) \<and> snd ((kv # items) ! 0) = v
          \<and> is_substring (lower (fst ((kv # items) ! 0))) (lower f)
          \<and> (\<forall>j. j < (0::nat) \<longrightarrow> \<not> is_substring (lower (fst ((kv # items) ! j))) (lower f))"
        by simp
      then show "\<exists>i. i < length (kv # items) \<and> snd ((kv # items) ! i) = v
          \<and> is_substring (lower (fst ((kv # items) ! i))) (lower f)
          \<and> (\<forall>j. j < i \<longrightarrow> \<not> is_substring (lower (fst ((kv # items) ! j))) (lower f))"
        by blast
    qed
    with True kv show ?thesis by simp
  next
    case False
    have "(\<exists>i. i < length (kv # items) \<and> snd ((kv # items) ! i) = v
          \<and> is_substring (lower (fst ((kv # items) ! i))) (lower f)
          \<and> (\<forall>j. j < i \<longrightarrow> \<not> is_substring (lower (fst ((kv # items) ! j))) (lower f)))
        \<longleftrightarrow> (\<exists>i. i < length items \<and> snd (items ! i) = v
          \<and> is_substring (lower (fst (items ! i))) (lower f)
          \<and> (\<forall>j. j < i \<longrightarrow> \<not> is_substring (lower (fst (items ! j))) (lower f)))"
      (is "?L \<longleftrightarrow> ?R")
    proof
      assume ?L
      then obtain i where i: "i < length (kv # items)" "snd ((kv # items) ! i) = v"
        "is_substring (lower (fst ((kv # items) ! i))) (lower f)"
        "\<forall>j. j < i \<longrightarrow> \<not> is_substring (lower (fst ((kv # items) ! j))) (lower f)" by blast
      from i(3) False kv have "i \<noteq> 0" by (cases i) auto
      then obtain i' where i': "i = Suc i'" by (cases i) auto
      have "\<forall>j. j < i' \<longrightarrow> \<not> is_substring (lower (fst (items ! j))) (lower f)"
      proof (intro allI impI)
        fix j assume "j < i'"
        then have "Suc j < i" using i' by simp
        with i(4) have "\<not> is_substring (lower (fst ((kv # items) ! Suc j))) (lower f)" by blast
        then show "\<not> is_substring (lower (fst (items ! j))) (lower f)" by simp
      qed
      with i i' show ?R by auto
    next
      assume ?R
      then obtain i where i: "i < length items" "snd (items ! i) = v"
        "is_substring (lower (fst (items ! i))) (lower f)"
        "\<forall>j. j < i \<longrightarrow> \<not> is_substring (lower (fst (items ! j))) (lower f)" by blast
      have "\<forall>j. j < Suc i \<longrightarrow> \<not> is_substring (lower (fst ((kv # items) ! j))) (lower f)"
      proof (intro allI impI)
        fix j assume j: "j < Suc i"
        show "\<not> is_substring (lower (fst ((kv # items) ! j))) (lower f)"
        proof (cases j)
          case 0
          with False kv show ?thesis by simp
        next
          case (Suc j')
          with j i(4) show ?thesis by simp
        qed
      qed
      with i have "Suc i < length (kv # items) \<and> snd ((kv # items) ! Suc i) = v
          \<and> is_substring (lower (fst ((kv # items) ! Suc i))) (lower f)
          \<and> (\<forall>j. j < Suc i \<longrightarrow> \<not> is_substring (lower (fst ((kv # items) ! j))) (lower f))"
        by simp
      then show ?L by blast
    qed
    with False kv Cons.IH show ?thesis by simp
  qed
qed

lemma goto_urls_append: "goto_urls (a @ b) = goto_urls a @ goto_urls b"
  by (induction a rule: goto_urls.induct) auto

lemma goto_urls_replicate_ReadClock: "goto_urls (replicate k ReadClock) = []"
  by (induction k) auto

lemma grade_rows_history:
  "\<exists>k. snd (grade_rows w cn cutoff i rows h) = h @ replicate k ReadClock"
proof (induction rows arbitrary: i h)
  case Nil
  have "snd (grade_rows w cn cutoff i [] h) = h @ replicate 0 ReadClock" by simp
  then show ?case by blast
next
  case (Cons row rows)
  obtain g1 h1 where r: "grade_of_row w cn cutoff i row h = (g1, h1)"
    by (cases "grade_of_row w cn cutoff i row h")
  from grade_of_row_history[of w cn cutoff i row h] r
  have "h1 = h @ replicate 0 ReadClock \<or> h1 = h @ replicate 1 ReadClock" by auto
  then obtain m where m: "h1 = h @ replicate m ReadClock" by blast
  from Cons.IH[of "Suc i" h1] obtain k where
    k: "snd (grade_rows w cn cutoff (Suc i) rows h1) = h1 @ replicate k ReadClock" by blast
  have "snd (grade_rows w cn cutoff i (row # rows) h) = h @ replicate (m + k) ReadClock"
    using r k m by (auto simp: replicate_add split: prod.splits)
  then show ?case by blast
qed

lemma extract_grades_history:
  "\<exists>k. snd (extract_grades_from_page w page cn cutoff h) = h @ replicate k ReadClock"
proof -
  have z: "h = h @ replicate 0 ReadClock" by simp
  show ?thesis
    unfolding extract_grades_from_page_def
    using grade_rows_history[of w cn cutoff 0 _ h] z
    by (auto split: sum.splits option.splits)
qed

lemma goto_urls_extract_grades:
  "goto_urls (snd (extract_grades_from_page w page cn cutoff h)) = goto_urls h"
  using extract_grades_history[of w page cn cutoff h]
  by (auto simp: goto_urls_append goto_urls_replicate_ReadClock)

lemma goto_urls_extract_grades_pair:
  "extract_grades_from_page w page cn cutoff h = (gs, h') \<Longrightarrow> goto_urls h' = goto_urls h"
  using goto_urls_extract_grades[of w page cn cutoff h] by simp

lemma goto_urls_grades_of_page:
  "goto_urls (snd (grades_of_page w url shot cn cutoff h)) = goto_urls h @ [url]"
  unfolding grades_of_page_def run_defs
  by (auto simp: goto_urls_append dest!: goto_urls_extract_grades_pair
           split: sum.splits option.splits prod.splits)

lemma find_course_key_empty_filter: "find_course_key course_mapping [] = None"
  by code_simp

lemma goto_urls_scrape_course_grades_try:
  "course_page f = Some (key, url) \<Longrightarrow>
   goto_urls (snd (scrape_course_grades_try w (Some f) since_days h))
     = goto_urls h @ (case cutoff_date (w_now w h) since_days of Inl e \<Rightarrow> [] | Inr c \<Rightarrow> [url])"
proof -
  assume cp: "course_page f = Some (key, url)"
  then have ne: "f \<noteq> []"
    by (auto simp: course_page_def find_course_key_empty_filter split: option.splits if_splits)
  show ?thesis
  proof (cases "cutoff_date (w_now w h) since_days")
    case (Inl e)
    then show ?thesis
      unfolding scrape_course_grades_try_def bind_def clock_now_def lift_def
      by (simp add: goto_urls_append)
  next
    case (Inr c)
    have "scrape_course_grades_try w (Some f) since_days h
          = grades_of_page w url (''grades_'' @ key @ ''_debug.png'') key c (h @ [ReadClock])"
      unfolding scrape_course_grades_try_def bind_def clock_now_def lift_def
      using Inr cp ne by simp
    then show ?thesis using Inr by (simp add: goto_urls_grades_of_page goto_urls_append)
  qed
qed

lemma snd_try_finally_close:
  "snd (try_finally (try_except m (\<lambda>e. ret [])) (perform w ClosePage) h) = snd (m h) @ [ClosePage]"
  unfolding run_defs by (auto split: sum.splits option.splits prod.splits)

lemma goto_urls_scrape_course_grades:
  assumes "course_page f = Some (key, url)"
      and "w_raises w h NewPage = None"
      and "cutoff_date (w_now w (h @ [NewPage])) since_days = Inr c"
  shows "goto_urls (snd (scrape_course_grades w (Some f) since_days h)) = goto_urls h @ [url]"
proof -
  have "scrape_course_grades w (Some f) since_days h
        = try_finally (try_except (scrape_course_grades_try w (Some f) since_days) (\<lambda>e. ret []))
            (perform w ClosePage) (h @ [NewPage])"
    unfolding scrape_course_grades_def using assms(2) by (simp add: bind_def perform_def)
  then show ?thesis
    using goto_urls_scrape_course_grades_try[OF assms(1), of w since_days "h @ [NewPage]"] assms(3)
    by (simp add: snd_try_finally_close goto_urls_append)
qed

lemma scrape_course_grades_try_filter:
  "course_page f = Some (key, url) \<Longrightarrow>
   scrape_course_grades_try w (Some f) since_days =
     bind (clock_now w) (\<lambda>now.
     bind (lift (cutoff_date now since_days)) (\<lambda>cutoff.
       grades_of_page w url (''grades_'' @ key @ ''_debug.png'') key cutoff))"
proof -
  assume cp: "course_page f = Some (key, url)"
  then have "f \<noteq> []"
    by (auto simp: course_page_def find_course_key_empty_filter split: option.splits if_splits)
  with cp show ?thesis
    unfolding scrape_course_grades_try_def by simp
qed

lemma scrape_course_grades_try_label:
  "course_page f = Some (key, url) \<Longrightarrow>
   scrape_course_grades_try w (Some f) since_days h = (Inr items, h') \<Longrightarrow> g \<in> set items \<Longrightarrow>
   gs_course g = course_label key"
  unfolding scrape_course_grades_try_filter bind_def clock_now_def lift_def
  by (auto split: sum.splits prod.splits dest: grades_of_page_keep)

lemma scrape_course_grades_label:
  assumes "course_page f = Some (key, url)"
      and "scrape_course_grades w (Some f) since_days h = (Inr items, h')"
      and "g \<in> set items"
  shows "gs_course g = course_label key"
proof -
  obtain r1 h1 where t: "scrape_course_grades_try w (Some f) since_days (h @ [NewPage]) = (r1, h1)"
    by (cases "scrape_course_grades_try w (Some f) since_days (h @ [NewPage])")
  from assms(2,3) t have "r1 = Inr items"
    unfolding scrape_course_grades_def run_defs
    by (auto split: sum.splits option.splits prod.splits)
  with t assms(1,3) show ?thesis by (auto dest: scrape_course_grades_try_label)
qed

lemma scrape_course_grades_unresolved:
  assumes "course_page f = None" and "f \<noteq> []"
  shows "goto_urls (snd (scrape_course_grades w (Some f) since_days h)) = goto_urls h
         \<and> (fst (scrape_course_grades w (Some f) since_days h) = Inr []
            \<or> (\<exists>e. fst (scrape_course_grades w (Some f) since_days h) = Inl e))"
  using assms
  unfolding scrape_course_grades_def scrape_course_grades_try_def run_defs
  by (auto simp: goto_urls_append split: sum.splits option.splits prod.splits)

lemma extract_grades_first_raises:
  "\<forall>sel. \<exists>e. loc_first page sel = Inl e \<Longrightarrow>
   extract_grades_from_page w page cn cutoff h = ([], h)"
proof -
  assume a: "\<forall>sel. \<exists>e. loc_first page sel = Inl e"
  have n: "loc_first page sel \<noteq> Inr t" for sel t
  proof -
    from a obtain e where "loc_first page sel = Inl e" by blast
    then show ?thesis by simp
  qed
  show ?thesis
    unfolding extract_grades_from_page_def
    by (auto simp: n split: sum.splits option.splits)
qed








section \<open>The recency filter\<close>

text \<open>
  Claim C1.  Whatever \<open>since_days\<close> is (so in particular for every
  \<open>since_days \<ge> 0\<close>), every assignment returned by \<open>scrape_missing_assignments\<close> has
  no due date or a due date on or after the cutoff \<open>now - since_days\<close> that the call
  computed, and every grade sample returned by \<open>scrape_course_grades\<close> has a date on or
  after its cutoff (the date of a sample is a datetime, never absent).  The items of a
  successful \<open>check_missing_assignments\<close> or \<open>get_course_grades\<close> tool call are the
  list returned by the corresponding scraper.
\<close>

theorem recency_filter:
  "(scrape_missing_assignments w since_days h = (Inr items, h') \<and> a \<in> set items \<longrightarrow>
      (\<exists>c. cutoff_date (w_now w (h @ [NewPage, Goto assignments_missing, WaitLoad 10000,
                                      Screenshot ''assignments_page_debug.png''])) since_days = Inr c
           \<and> (as_due_date a = None \<or> (\<exists>d. as_due_date a = Some d \<and> dt_ge d c))))
   \<and> (scrape_course_grades w course_filter since_days h = (Inr samples, h'') \<and> g \<in> set samples \<longrightarrow>
      (\<exists>c. cutoff_date (w_now w (h @ [NewPage])) since_days = Inr c \<and> dt_ge (gs_date g) c))
   \<and> (call_tool cfg w request h = (Inr resp, hf) \<and> data resp = Some (MissingData n items') \<longrightarrow>
      (\<exists>h1 h2. scrape_missing_assignments w (since_days_of (args request)) h1 = (Inr items', h2)))
   \<and> (call_tool cfg w request h = (Inr resp, hf) \<and> data resp = Some (GradesData f samples') \<longrightarrow>
      (\<exists>h1 h2. scrape_course_grades w (arg_course (args request)) (since_days_of (args request)) h1
                 = (Inr samples', h2)))"
proof (intro conjI impI)
  assume "scrape_missing_assignments w since_days h = (Inr items, h') \<and> a \<in> set items"
  then obtain c where
    c: "cutoff_date (w_now w (h @ [NewPage, Goto assignments_missing, WaitLoad 10000,
                                   Screenshot ''assignments_page_debug.png''])) since_days = Inr c"
    and k: "keep_assignment (as_due_date a) c"
    using scrape_missing_assignments_result by blast
  from k have "as_due_date a = None \<or> (\<exists>d. as_due_date a = Some d \<and> dt_ge d c)"
    by (cases "as_due_date a") (simp_all add: keep_assignment_def)
  with c show "\<exists>c. cutoff_date (w_now w (h @ [NewPage, Goto assignments_missing, WaitLoad 10000,
                                      Screenshot ''assignments_page_debug.png''])) since_days = Inr c
           \<and> (as_due_date a = None \<or> (\<exists>d. as_due_date a = Some d \<and> dt_ge d c))"
    by blast
next
  assume "scrape_course_grades w course_filter since_days h = (Inr samples, h'') \<and> g \<in> set samples"
  then show "\<exists>c. cutoff_date (w_now w (h @ [NewPage])) since_days = Inr c \<and> dt_ge (gs_date g) c"
    using scrape_course_grades_result by blast
next
  assume "call_tool cfg w request h = (Inr resp, hf) \<and> data resp = Some (MissingData n items')"
  then show "\<exists>h1 h2. scrape_missing_assignments w (since_days_of (args request)) h1 = (Inr items', h2)"
    using call_tool_missing_items by blast
next
  assume "call_tool cfg w request h = (Inr resp, hf) \<and> data resp = Some (GradesData f samples')"
  then show "\<exists>h1 h2. scrape_course_grades w (arg_course (args request)) (since_days_of (args request)) h1
                 = (Inr samples', h2)"
    using call_tool_grades_items by blast
qed


theorem recency_filter_witness:
  "fst (scrape_missing_assignments (quiet_world (table_page assignments_demo)) 14 [])
     = Inr [essay, reading_log]
   \<and> (\<exists>c. cutoff_date demo_now 14 = Inr c \<and> dt_ge \<lparr>ordinal = 738962, usec = 0\<rparr> c)
   \<and> fst (scrape_course_grades (quiet_world (table_page grades_demo)) (Some ''Math'') 14 [])
     = Inr [quiz_sample ''Pre Algebra'', homework_sample ''Pre Algebra'']
   \<and> (\<exists>c. cutoff_date demo_now 14 = Inr c \<and> dt_ge \<lparr>ordinal = 738959, usec = 0\<rparr> c)"
proof -
  let ?wa = "quiet_world (table_page assignments_demo)"
  let ?wg = "quiet_world (table_page grades_demo)"
  obtain ha where a: "scrape_missing_assignments ?wa 14 [] = (Inr [essay, reading_log], ha)"
  proof -
    have "fst (scrape_missing_assignments ?wa 14 []) = Inr [essay, reading_log]" by code_simp
    then show ?thesis using that by (cases "scrape_missing_assignments ?wa 14 []") simp
  qed
  obtain hg where g: "scrape_course_grades ?wg (Some ''Math'') 14 []
      = (Inr [quiz_sample ''Pre Algebra'', homework_sample ''Pre Algebra''], hg)"
  proof -
    have "fst (scrape_course_grades ?wg (Some ''Math'') 14 [])
      = Inr [quiz_sample ''Pre Algebra'', homework_sample ''Pre Algebra'']" by code_simp
    then show ?thesis using that by (cases "scrape_course_grades ?wg (Some ''Math'') 14 []") simp
  qed
  have na: "w_now ?wa = (\<lambda>h. demo_now)" and ng: "w_now ?wg = (\<lambda>h. demo_now)"
    by (simp_all add: quiet_world_def)
  have "\<exists>c. cutoff_date demo_now 14 = Inr c
          \<and> (as_due_date essay = None \<or> (\<exists>d. as_due_date essay = Some d \<and> dt_ge d c))"
    using recency_filter[where w = ?wa and since_days = 14 and h = "[]"
        and items = "[essay, reading_log]" and h' = ha and a = essay] a
    by (simp add: na)
  then have 1: "\<exists>c. cutoff_date demo_now 14 = Inr c \<and> dt_ge \<lparr>ordinal = 738962, usec = 0\<rparr> c"
    by (simp add: essay_def Assignment_def)
  have 2: "\<exists>c. cutoff_date demo_now 14 = Inr c \<and> dt_ge (gs_date (homework_sample ''Pre Algebra'')) c"
    using recency_filter[where w = ?wg and since_days = 14 and h = "[]"
        and course_filter = "Some ''Math''" and h'' = hg
        and samples = "[quiz_sample ''Pre Algebra'', homework_sample ''Pre Algebra'']"
        and g = "homework_sample ''Pre Algebra''"] g
    by (simp add: ng)
  from a g 1 2 show ?thesis by (simp add: homework_sample_def)
qed

section \<open>Date parsing\<close>


section \<open>Course filter resolution\<close>

text \<open>
  Claim C9.  Alias resolution scans the alias items in their listed order and returns
  the value of the first item whose lower-cased key occurs as a substring in the
  lower-cased filter text (the key in the filter, not the filter in the key).  For
  "Spanish Literature" the first such key is "lit", so the filter resolves to
  \<open>lang_lit\<close> and not, through the later key "spanish", to \<open>spanish_2\<close>; "alg", which
  is only a part of the key "algebra", resolves to nothing.
\<close>

theorem alias_resolution_first_match:
  "(find_course_key items f = Some v \<longleftrightarrow>
      (\<exists>i. i < length items \<and> snd (items ! i) = v
           \<and> (\<exists>p q. lower f = p @ lower (fst (items ! i)) @ q)
           \<and> (\<forall>j. j < i \<longrightarrow> \<not> (\<exists>p q. lower f = p @ lower (fst (items ! j)) @ q))))
   \<and> find_course_key course_mapping ''Spanish Literature'' = Some ''lang_lit''
   \<and> course_page ''Spanish Literature'' = Some (''lang_lit'', class_url ''2203759'')
   \<and> map fst (filter (\<lambda>(k, v). is_substring (lower k) (lower ''Spanish Literature'')) course_mapping)
        = [''lit'', ''literature'', ''spanish'']
   \<and> find_course_key course_mapping ''alg'' = None"
proof (intro conjI)
  show "find_course_key items f = Some v \<longleftrightarrow>
      (\<exists>i. i < length items \<and> snd (items ! i) = v
           \<and> (\<exists>p q. lower f = p @ lower (fst (items ! i)) @ q)
           \<and> (\<forall>j. j < i \<longrightarrow> \<not> (\<exists>p q. lower f = p @ lower (fst (items ! j)) @ q)))"
    using find_course_key_Some[of items f v] by (simp only: is_substring_iff)
  show "find_course_key course_mapping ''Spanish Literature'' = Some ''lang_lit''"
    by code_simp
  show "course_page ''Spanish Literature'' = Some (''lang_lit'', class_url ''2203759'')"
    by code_simp
  show "map fst (filter (\<lambda>(k, v). is_substring (lower k) (lower ''Spanish Literature'')) course_mapping)
        = [''lit'', ''literature'', ''spanish'']"
    by code_simp
  show "find_course_key course_mapping ''alg'' = None"
    by code_simp
qed

theorem alias_resolution_first_match_witness:
  "find_course_key course_mapping ''Spanish Literature'' = Some ''lang_lit''
   \<and> (\<exists>i. i < length course_mapping \<and> snd (course_mapping ! i) = ''lang_lit''
          \<and> (\<exists>p q. lower ''Spanish Literature'' = p @ lower (fst (course_mapping ! i)) @ q))"
  using alias_resolution_first_match[of course_mapping "''Spanish Literature''" "''lang_lit''"]
  by blast

section \<open>Choice of the grades page\<close>

text \<open>
  Claim C6.  With the alias item "math" \<open>\<mapsto>\<close> \<open>pre_algebra\<close>, the filter text "Math"
  resolves, compared in lower case, to \<open>pre_algebra\<close>; \<open>scrape_course_grades\<close> then
  navigates to the page of the \<open>pre_algebra\<close> class and to no other page, so not to the
  grades overview (once its page is open and the cutoff is computed).
\<close>

theorem math_filter_selects_pre_algebra_page:
  "find_course_key [(''math'', ''pre_algebra'')] ''Math'' = Some ''pre_algebra''
   \<and> find_course_key course_mapping ''Math'' = Some ''pre_algebra''
   \<and> course_page ''Math'' = Some (''pre_algebra'', class_url ''2203700'')
   \<and> class_url ''2203700'' \<noteq> grades_overview
   \<and> (w_raises w h NewPage = None \<and> cutoff_date (w_now w (h @ [NewPage])) since_days = Inr c \<longrightarrow>
        goto_urls (snd (scrape_course_grades w (Some ''Math'') since_days h))
          = goto_urls h @ [class_url ''2203700''])"
proof (intro conjI impI)
  show "find_course_key [(''math'', ''pre_algebra'')] ''Math'' = Some ''pre_algebra''"
    by code_simp
  show "find_course_key course_mapping ''Math'' = Some ''pre_algebra''"
    by code_simp
  show cp: "course_page ''Math'' = Some (''pre_algebra'', class_url ''2203700'')"
    by code_simp
  show "class_url ''2203700'' \<noteq> grades_overview"
    by (simp add: class_url_def grades_overview_def URL_BASE_def)
  assume "w_raises w h NewPage = None \<and> cutoff_date (w_now w (h @ [NewPage])) since_days = Inr c"
  then show "goto_urls (snd (scrape_course_grades w (Some ''Math'') since_days h))
          = goto_urls h @ [class_url ''2203700'']"
    using goto_urls_scrape_course_grades[OF cp, of w h since_days c] by blast
qed

theorem math_filter_selects_pre_algebra_page_witness:
  "w_raises (quiet_world (table_page grades_demo)) [] NewPage = None
   \<and> cutoff_date demo_now 14 = Inr \<lparr>ordinal = 738946, usec = 0\<rparr>
   \<and> goto_urls (snd (scrape_course_grades (quiet_world (table_page grades_demo)) (Some ''Math'') 14 []))
        = [class_url ''2203700'']"
proof -
  let ?w = "quiet_world (table_page grades_demo)"
  have 1: "w_raises ?w [] NewPage = None" by (simp add: quiet_world_def)
  have 2: "cutoff_date demo_now 14 = Inr \<lparr>ordinal = 738946, usec = 0\<rparr>"
    by (simp add: cutoff_date_def demo_now_def MAXORDINAL_def)
  have 3: "w_now ?w ([] @ [NewPage]) = demo_now" by (simp add: quiet_world_def)
  have "w_raises ?w [] NewPage = None
          \<and> cutoff_date (w_now ?w ([] @ [NewPage])) 14 = Inr \<lparr>ordinal = 738946, usec = 0\<rparr>"
    using 1 2 3 by simp
  then have "goto_urls (snd (scrape_course_grades ?w (Some ''Math'') 14 []))
               = goto_urls [] @ [class_url ''2203700'']"
    using math_filter_selects_pre_algebra_page[of ?w "[]" 14 "\<lparr>ordinal = 738946, usec = 0\<rparr>"]
    by blast
  then have 4: "goto_urls (snd (scrape_course_grades ?w (Some ''Math'') 14 []))
               = [class_url ''2203700'']"
    by simp
  from 1 2 4 show ?thesis by blast
qed

section \<open>Course labels of a per-course page\<close>

text \<open>
  Claim C10.  When the filter resolves to a course key with a page of its own, every
  grade sample that \<open>scrape_course_grades\<close> returns carries as course the key with
  underscores replaced by spaces and title-cased ("pre_algebra" gives "Pre Algebra"),
  whatever the page shows.  The result depends on the filter text only through the
  page it resolves to: the text is not tested against the records again.
\<close>

theorem per_course_label:
  "(course_page f = Some (key, url)
      \<and> scrape_course_grades w (Some f) since_days h = (Inr items, h') \<and> g \<in> set items
      \<longrightarrow> gs_course g = course_label key)
   \<and> (course_page f1 = Some (key, url) \<and> course_page f2 = Some (key, url)
      \<longrightarrow> scrape_course_grades w (Some f1) since_days h = scrape_course_grades w (Some f2) since_days h)
   \<and> course_label ''pre_algebra'' = ''Pre Algebra''
   \<and> map (\<lambda>(k, u). course_label k) classes
        = [''Individuals And Societies'', ''Lang Lit'', ''Science'', ''Spanish 2'', ''Pre Algebra'']"
proof (intro conjI impI)
  assume "course_page f = Some (key, url)
      \<and> scrape_course_grades w (Some f) since_days h = (Inr items, h') \<and> g \<in> set items"
  then show "gs_course g = course_label key"
    using scrape_course_grades_label by blast
next
  assume "course_page f1 = Some (key, url) \<and> course_page f2 = Some (key, url)"
  then have "scrape_course_grades_try w (Some f1) since_days = scrape_course_grades_try w (Some f2) since_days"
    by (simp add: scrape_course_grades_try_filter)
  then show "scrape_course_grades w (Some f1) since_days h = scrape_course_grades w (Some f2) since_days h"
    by (simp add: scrape_course_grades_def)
next
  show "course_label ''pre_algebra'' = ''Pre Algebra''" by code_simp
  show "map (\<lambda>(k, u). course_label k) classes
        = [''Individuals And Societies'', ''Lang Lit'', ''Science'', ''Spanish 2'', ''Pre Algebra'']"
    by code_simp
qed

theorem per_course_label_witness:
  "course_page ''Math'' = Some (''pre_algebra'', class_url ''2203700'')
   \<and> fst (scrape_course_grades (quiet_world (table_page grades_demo)) (Some ''Math'') 14 [])
        = Inr [quiz_sample ''Pre Algebra'', homework_sample ''Pre Algebra'']
   \<and> gs_course (quiz_sample ''Pre Algebra'') = course_label ''pre_algebra''
   \<and> \<not> is_substring (lower ''Math'') (lower (gs_course (quiz_sample ''Pre Algebra'')))
   \<and> scrape_course_grades (quiet_world (table_page grades_demo)) (Some ''Math'') 14 []
        = scrape_course_grades (quiet_world (table_page grades_demo)) (Some ''pre-algebra'') 14 []"
proof -
  let ?w = "quiet_world (table_page grades_demo)"
  have cp: "course_page ''Math'' = Some (''pre_algebra'', class_url ''2203700'')" by code_simp
  have cp2: "course_page ''pre-algebra'' = Some (''pre_algebra'', class_url ''2203700'')" by code_simp
  obtain hg where g: "scrape_course_grades ?w (Some ''Math'') 14 []
      = (Inr [quiz_sample ''Pre Algebra'', homework_sample ''Pre Algebra''], hg)"
  proof -
    have "fst (scrape_course_grades ?w (Some ''Math'') 14 [])
      = Inr [quiz_sample ''Pre Algebra'', homework_sample ''Pre Algebra'']" by code_simp
    then show ?thesis using that by (cases "scrape_course_grades ?w (Some ''Math'') 14 []") simp
  qed
  have ns: "\<not> is_substring (lower ''Math'') (lower (gs_course (quiz_sample ''Pre Algebra'')))"
    by code_simp
  have m: "quiz_sample ''Pre Algebra''
             \<in> set [quiz_sample ''Pre Algebra'', homework_sample ''Pre Algebra'']"
    by simp
  have a: "gs_course (quiz_sample ''Pre Algebra'') = course_label ''pre_algebra''"
    using per_course_label[where w = ?w and since_days = 14 and h = "[]"
        and key = "''pre_algebra''" and url = "class_url ''2203700''" and f = "''Math''"
        and items = "[quiz_sample ''Pre Algebra'', homework_sample ''Pre Algebra'']"
        and h' = hg and g = "quiz_sample ''Pre Algebra''", THEN conjunct1] cp g m
    by blast
  have b: "scrape_course_grades ?w (Some ''Math'') 14 [] = scrape_course_grades ?w (Some ''pre-algebra'') 14 []"
    using per_course_label[where w = ?w and since_days = 14 and h = "[]"
        and key = "''pre_algebra''" and url = "class_url ''2203700''"
        and ?f1.0 = "''Math''" and ?f2.0 = "''pre-algebra''", THEN conjunct2, THEN conjunct1] cp cp2
    by blast
  have g1: "fst (scrape_course_grades ?w (Some ''Math'') 14 [])
      = Inr [quiz_sample ''Pre Algebra'', homework_sample ''Pre Algebra'']"
    using g by simp
  from cp g1 ns a b show ?thesis by blast
qed

section \<open>A filter that resolves to no page\<close>

text \<open>
  Claim C5 says that a filter which resolves to no per-course page makes the scraper use
  the grades overview.  The branch for that case only logs
  "not found, getting all grades": with the filter "History" no page is visited and the
  result is empty, while the same browser without a filter visits the overview and
  gets its two recent grades.
\<close>

theorem unresolved_filter_skips_overview:
  "course_page ''History'' = None
   \<and> scrape_course_grades (quiet_world (table_page grades_demo)) (Some ''History'') 14 []
        = (Inr [], [NewPage, ReadClock, ClosePage])
   \<and> fst (scrape_course_grades (quiet_world (table_page grades_demo)) None 14 [])
        = Inr [quiz_sample ''Overview'', homework_sample ''Overview'']
   \<and> goto_urls (snd (scrape_course_grades (quiet_world (table_page grades_demo)) None 14 []))
        = [grades_overview]"
  by code_simp

section \<open>Unknown tools\<close>

text \<open>
  Claim C2, as amended.  For every tool name other than \<open>check_missing_assignments\<close>,
  \<open>get_course_grades\<close> and \<open>health\<close>, \<open>call_tool\<close> of the configured HTTP server
  returns the envelope with \<open>success\<close> false and the error "Unknown tool: <name>",
  without touching the browser, and \<open>call_tool\<close> never raises for any request.  The
  stdio server's \<open>handle_call_tool\<close> has no envelope: for such a name it raises
  \<open>ValueError\<close> with that message to its caller.
\<close>

theorem unknown_tool_envelope:
  "(tool request \<noteq> ''check_missing_assignments'' \<and> tool request \<noteq> ''get_course_grades''
      \<and> tool request \<noteq> ''health''
    \<longrightarrow> call_tool cfg w request h
          = (Inr \<lparr>success = False, data = None,
                   error = Some (''Unknown tool: '' @ tool request)\<rparr>, h))
   \<and> (\<exists>resp. fst (call_tool cfg w request h) = Inr resp)
   \<and> (name \<noteq> ''check_missing_assignments'' \<and> name \<noteq> ''get_course_grades'' \<and> name \<noteq> ''health''
    \<longrightarrow> handle_call_tool float_ok cfg w name arguments h
          = (Inl (PyError ''ValueError'' (''Unknown tool: '' @ name)), h))"
proof (intro conjI impI)
  assume "tool request \<noteq> ''check_missing_assignments'' \<and> tool request \<noteq> ''get_course_grades''
      \<and> tool request \<noteq> ''health''"
  then show "call_tool cfg w request h
          = (Inr \<lparr>success = False, data = None,
                   error = Some (''Unknown tool: '' @ tool request)\<rparr>, h)"
    by (simp add: call_tool_def call_tool_try_def try_except_def ret_def)
next
  show "\<exists>resp. fst (call_tool cfg w request h) = Inr resp"
    unfolding call_tool_def try_except_def ret_def
    by (cases "call_tool_try cfg w request h") (auto split: sum.splits)
next
  assume "name \<noteq> ''check_missing_assignments'' \<and> name \<noteq> ''get_course_grades'' \<and> name \<noteq> ''health''"
  then show "handle_call_tool float_ok cfg w name arguments h
          = (Inl (PyError ''ValueError'' (''Unknown tool: '' @ name)), h)"
    by (simp add: handle_call_tool_def)
qed

theorem unknown_tool_envelope_witness:
  "call_tool demo_config (quiet_world blank_page) \<lparr>tool = ''nonexistent'', args = no_arguments\<rparr> []
     = (Inr \<lparr>success = False, data = None, error = Some ''Unknown tool: nonexistent''\<rparr>, [])"
proof -
  have "tool \<lparr>tool = ''nonexistent'', args = no_arguments\<rparr> \<noteq> ''check_missing_assignments''
        \<and> tool \<lparr>tool = ''nonexistent'', args = no_arguments\<rparr> \<noteq> ''get_course_grades''
        \<and> tool \<lparr>tool = ''nonexistent'', args = no_arguments\<rparr> \<noteq> ''health''"
    by simp
  then have "call_tool demo_config (quiet_world blank_page) \<lparr>tool = ''nonexistent'', args = no_arguments\<rparr> []
     = (Inr \<lparr>success = False, data = None,
              error = Some (''Unknown tool: '' @ tool \<lparr>tool = ''nonexistent'', args = no_arguments\<rparr>)\<rparr>, [])"
    using unknown_tool_envelope[where request = "\<lparr>tool = ''nonexistent'', args = no_arguments\<rparr>"
        and cfg = demo_config and w = "quiet_world blank_page" and h = "[]", THEN conjunct1]
    by blast
  then show ?thesis by simp
qed

theorem stdio_dispatcher_raises_on_unknown_tool:
  "fst (handle_call_tool (\<lambda>s. True) demo_config (quiet_world blank_page) ''nonexistent'' no_arguments [])
     = Inl (PyError ''ValueError'' ''Unknown tool: nonexistent'')"
  by (simp add: handle_call_tool_def)

section \<open>Session acquisition\<close>

text \<open>
  Claim C8, as amended.  Once the browser is started, \<open>get_context\<close> creates the
  context from the state file when the file exists and from nothing when it is
  missing, so a missing file never fails.  It has no handler: its outcome is the
  outcome of creating the context, and an exception of the browser for a state file
  that exists but cannot be loaded leaves \<open>get_context\<close>.  The stdio server's
  \<open>get_context\<close> behaves the same.
\<close>

theorem get_context_state_file:
  "(w_raises w h StartPlaywright = None \<and> w_raises w (h @ [StartPlaywright]) LaunchBrowser = None
    \<longrightarrow> get_context cfg w h
          = ((case w_raises w (h @ [StartPlaywright, LaunchBrowser])
                     (NewContext (if w_exists w (h @ [StartPlaywright, LaunchBrowser]) (STATE_PATH cfg)
                                  then Some (STATE_PATH cfg) else None)) of
                Some e \<Rightarrow> Inl e | None \<Rightarrow> Inr ()),
             h @ [StartPlaywright, LaunchBrowser,
                  NewContext (if w_exists w (h @ [StartPlaywright, LaunchBrowser]) (STATE_PATH cfg)
                              then Some (STATE_PATH cfg) else None)]))
   \<and> server_get_context cfg w h = get_context cfg w h"
  by (simp add: get_context_def server_get_context_def bind_def perform_def path_exists_def)

theorem get_context_state_file_witness:
  "get_context demo_config (quiet_world blank_page) []
     = (Inr (), [StartPlaywright, LaunchBrowser, NewContext None])"
proof -
  let ?w = "quiet_world blank_page"
  have "w_raises ?w [] StartPlaywright = None \<and> w_raises ?w ([] @ [StartPlaywright]) LaunchBrowser = None"
    by (simp add: quiet_world_def)
  then have "get_context demo_config ?w []
          = ((case w_raises ?w ([] @ [StartPlaywright, LaunchBrowser])
                     (NewContext (if w_exists ?w ([] @ [StartPlaywright, LaunchBrowser]) (STATE_PATH demo_config)
                                  then Some (STATE_PATH demo_config) else None)) of
                Some e \<Rightarrow> Inl e | None \<Rightarrow> Inr ()),
             [] @ [StartPlaywright, LaunchBrowser,
                  NewContext (if w_exists ?w ([] @ [StartPlaywright, LaunchBrowser]) (STATE_PATH demo_config)
                              then Some (STATE_PATH demo_config) else None)])"
    using get_context_state_file[of ?w "[]" demo_config, THEN conjunct1] by blast
  then show ?thesis by (simp add: quiet_world_def)
qed

theorem corrupt_state_file_fails_get_context:
  "w_exists corrupt_state_world [StartPlaywright, LaunchBrowser] (STATE_PATH demo_config)
   \<and> w_raises corrupt_state_world [StartPlaywright, LaunchBrowser] (NewContext None) = None
   \<and> get_context demo_config corrupt_state_world []
        = (Inl (PyError ''JSONDecodeError'' ''Expecting value: line 1 column 1 (char 0)''),
           [StartPlaywright, LaunchBrowser, NewContext (Some ''./state.json'')])"
  by (simp add: get_context_def bind_def perform_def path_exists_def corrupt_state_world_def
        demo_config_def)

section \<open>Unparsable grade dates\<close>

text \<open>
  Claim C3 says that a grade row whose date text parses under none of the candidate
  formats gets the current time as its date and so, for every \<open>since_days \<ge> 0\<close>, is in
  the returned list.  One iteration of the row loop does that: the row
  "85.5%", "not-a-date", "Quiz" gives a sample dated by the clock.  But the rows are
  reached through \<open>await page.locator(table_found).first\<close>, and awaiting
  \<open>Locator.first\<close> raises \<open>TypeError\<close>: the handler of \<open>extract_grades_from_page\<close>
  swallows it and the function returns the empty list, so the record is not returned.
\<close>

theorem awaited_first_drops_unparsable_row:
  "find_selector (live_table_page grades_demo) GRADE_TABLE_SELECTORS = Inr (Some ''table'')
   \<and> loc_first (live_table_page grades_demo) ''table'' = Inl first_not_awaitable
   \<and> map (strptime (strip ''not-a-date'')) DATE_FORMATS = [None, None, None, None, None]
   \<and> cutoff_date demo_now 14 = Inr \<lparr>ordinal = 738946, usec = 0\<rparr>
   \<and> fst (grade_of_row (quiet_world (live_table_page grades_demo)) ''pre_algebra''
            \<lparr>ordinal = 738946, usec = 0\<rparr> 1 (live_row [''85.5%'', ''not-a-date'', ''Quiz'']) [])
        = Some (quiz_sample ''Pre Algebra'')
   \<and> extract_grades_from_page (quiet_world (live_table_page grades_demo))
        (live_table_page grades_demo) ''pre_algebra'' \<lparr>ordinal = 738946, usec = 0\<rparr> []
        = ([], [])
   \<and> fst (scrape_course_grades (quiet_world (live_table_page grades_demo)) (Some ''Math'') 14 [])
        = Inr []"
proof (intro conjI)
  show "find_selector (live_table_page grades_demo) GRADE_TABLE_SELECTORS = Inr (Some ''table'')"
    by code_simp
  show "loc_first (live_table_page grades_demo) ''table'' = Inl first_not_awaitable"
    by (simp add: live_table_page_def)
  show "map (strptime (strip ''not-a-date'')) DATE_FORMATS = [None, None, None, None, None]"
    by code_simp
  show "cutoff_date demo_now 14 = Inr \<lparr>ordinal = 738946, usec = 0\<rparr>"
    by (simp add: cutoff_date_def demo_now_def MAXORDINAL_def)
  show "fst (grade_of_row (quiet_world (live_table_page grades_demo)) ''pre_algebra''
            \<lparr>ordinal = 738946, usec = 0\<rparr> 1 (live_row [''85.5%'', ''not-a-date'', ''Quiz'']) [])
        = Some (quiz_sample ''Pre Algebra'')"
    by code_simp
  show "extract_grades_from_page (quiet_world (live_table_page grades_demo))
        (live_table_page grades_demo) ''pre_algebra'' \<lparr>ordinal = 738946, usec = 0\<rparr> []
        = ([], [])"
    by code_simp
  show "fst (scrape_course_grades (quiet_world (live_table_page grades_demo)) (Some ''Math'') 14 [])
        = Inr []"
    by code_simp
qed

section \<open>Login without a username field\<close>



end
